theory Spec2Isabelle
  imports Complex_Main
begin

section \<open>Errors, tensors and the external numeric runtime\<close>

text \<open>
  The program (\<^verbatim>\<open>deeplabv3p.py\<close>) assembles a DeepLabV3+ network from Keras layers.
  Every Python exception is a value of \<open>error\<close>; a computation that may raise returns
  \<open>error + 'a\<close> with \<open>Inl\<close> the exception.
\<close>

datatype error =
  ValueError | IndexError | TypeError | AttributeError | UnboundLocalError | NameError string

definition bind :: "error + 'a \<Rightarrow> ('a \<Rightarrow> error + 'b) \<Rightarrow> error + 'b" where
  "bind m f = (case m of Inl e \<Rightarrow> Inl e | Inr v \<Rightarrow> f v)"

text \<open>
  A tensor is its static shape together with its contents, a floating-point value at
  every index. A value is a number, one of the two infinities, or NaN. Numbers are kept
  exact (rounding is not modelled); what floating point adds through overflow and invalid
  operations, the infinities and NaN, is explicit.
\<close>

datatype fval = Fin real | PInf | NInf | NaN

type_synonym data = "nat list \<Rightarrow> fval"

record tensor =
  tshape :: "nat list"
  tdata :: data

datatype padding = Same | Valid

text \<open>
  The Keras layers the program instantiates, with the constructor arguments the program
  passes: \<open>Conv2D filters kernel_size strides padding use_bias dilation_rate\<close>,
  \<open>DepthwiseConv2D kernel_size strides padding use_bias dilation_rate\<close>.
  \<open>ZeroPadding2D a b\<close> is the layer built from the 2-tuple \<open>(a, b)\<close>;
  \<open>Lambda_newaxis\<close> is \<^verbatim>\<open>Lambda(lambda x: x[:, tf.newaxis, tf.newaxis, :])\<close>.
\<close>

datatype layer =
    ZeroPadding2D int int
  | Conv2D nat nat nat padding bool nat
  | DepthwiseConv2D nat nat padding bool nat
  | BatchNormalization
  | ReLU
  | GlobalAveragePooling2D
  | Lambda_newaxis
  | Activation string

text \<open>
  The numeric primitives are collaborators outside the program (convolution kernels,
  normalisation statistics, interpolation): a \<open>runtime\<close> supplies what they compute
  on the contents. Rectification and the sigmoid are elementwise and written out.
\<close>

record runtime =
  rt_layer :: "layer \<Rightarrow> data \<Rightarrow> data"
  rt_add :: "data \<Rightarrow> data \<Rightarrow> data"
  rt_concat :: "data list \<Rightarrow> data"
  rt_resize :: "nat list \<Rightarrow> data \<Rightarrow> data"

text \<open>The sigmoid and the rectifier on floating-point values: both propagate NaN.\<close>

fun sigmoid :: "fval \<Rightarrow> fval" where
  "sigmoid (Fin v) = Fin (1 / (1 + exp (- v)))"
| "sigmoid PInf = Fin 1"
| "sigmoid NInf = Fin 0"
| "sigmoid NaN = NaN"

fun relu :: "fval \<Rightarrow> fval" where
  "relu (Fin v) = Fin (max 0 v)"
| "relu PInf = PInf"
| "relu NInf = Fin 0"
| "relu NaN = NaN"

definition layer_data :: "runtime \<Rightarrow> layer \<Rightarrow> data \<Rightarrow> data" where
  "layer_data rt l d =
     (if l = ReLU then (\<lambda>i. relu (d i))
      else if l = Activation ''sigmoid'' then (\<lambda>i. sigmoid (d i))
      else rt_layer rt l d)"

text \<open>
  The Keras layer constructors validate their arguments and raise \<open>ValueError\<close>:
  a convolution needs a positive number of filters, kernel size, stride and dilation
  rate, and refuses a stride above 1 together with a dilation rate above 1. A block
  constructor that creates such a layer raises with it.
\<close>

fun layer_valid :: "layer \<Rightarrow> bool" where
  "layer_valid (Conv2D f k s p ub d) = (0 < f \<and> 0 < k \<and> 0 < s \<and> 0 < d \<and> (s \<le> 1 \<or> d \<le> 1))"
| "layer_valid (DepthwiseConv2D k s p ub d) = (0 < k \<and> 0 < s \<and> 0 < d \<and> (s \<le> 1 \<or> d \<le> 1))"
| "layer_valid l = True"

definition constructed :: "layer list \<Rightarrow> 'a \<Rightarrow> error + 'a" where
  "constructed ls b = (if list_all layer_valid ls then Inr b else Inl ValueError)"

subsection \<open>Output shapes of the Keras layers\<close>

text \<open>
  Keras \<^verbatim>\<open>conv_output_length\<close>: the dilated kernel spans \<open>k + (k - 1) * (d - 1)\<close>
  positions; \<^verbatim>\<open>"same"\<close> keeps the length, \<^verbatim>\<open>"valid"\<close> loses the span minus one;
  the stride then divides, rounding up. A length that is not positive is an error.
\<close>

definition conv_output_length :: "nat \<Rightarrow> nat \<Rightarrow> nat \<Rightarrow> padding \<Rightarrow> nat \<Rightarrow> error + nat" where
  "conv_output_length n k stride pad d =
     (if k = 0 \<or> stride = 0 \<or> d = 0 then Inl ValueError
      else let s = int k + (int k - 1) * (int d - 1);
               ol = (case pad of Same \<Rightarrow> int n | Valid \<Rightarrow> int n - s + 1);
               r = (ol + int stride - 1) div int stride
           in if r \<le> 0 then Inl ValueError else Inr (nat r))"

text \<open>
  \<open>ZeroPadding2D\<close> given a tuple of two integers pads symmetrically: the first integer
  is added above and below (height), the second left and right (width).
\<close>

fun layer_shape :: "layer \<Rightarrow> nat list \<Rightarrow> error + nat list" where
  "layer_shape (ZeroPadding2D a b) [n, h, w, c] =
     (if a < 0 \<or> b < 0 then Inl ValueError
      else Inr [n, h + 2 * nat a, w + 2 * nat b, c])"
| "layer_shape (Conv2D f k stride pad ub d) [n, h, w, c] =
     bind (conv_output_length h k stride pad d) (\<lambda>h'.
     bind (conv_output_length w k stride pad d) (\<lambda>w'.
     if f = 0 then Inl ValueError else Inr [n, h', w', f]))"
| "layer_shape (DepthwiseConv2D k stride pad ub d) [n, h, w, c] =
     bind (conv_output_length h k stride pad d) (\<lambda>h'.
     bind (conv_output_length w k stride pad d) (\<lambda>w'.
     Inr [n, h', w', c]))"
| "layer_shape BatchNormalization s = Inr s"
| "layer_shape ReLU s = Inr s"
| "layer_shape GlobalAveragePooling2D [n, h, w, c] = Inr [n, c]"
| "layer_shape Lambda_newaxis [n, c] = Inr [n, 1, 1, c]"
| "layer_shape (Activation a) s = Inr s"
| "layer_shape l s = Inl ValueError"

definition apply_layer :: "runtime \<Rightarrow> layer \<Rightarrow> tensor \<Rightarrow> error + tensor" where
  "apply_layer rt l x =
     bind (layer_shape l (tshape x)) (\<lambda>s.
     Inr \<lparr>tshape = s, tdata = layer_data rt l (tdata x)\<rparr>)"

text \<open>
  The merge layer \<open>Add\<close> validates its two input shapes when it is built: the batch
  sizes must be equal, and every other dimension must be equal or 1 on one side, in
  which case it is broadcast (Keras \<^verbatim>\<open>_Merge._compute_elemwise_op_output_shape\<close>).
\<close>

fun elemwise_op_output_shape :: "nat list \<Rightarrow> nat list \<Rightarrow> error + nat list" where
  "elemwise_op_output_shape [] [] = Inr []"
| "elemwise_op_output_shape (i # s1) (j # s2) =
     bind (elemwise_op_output_shape s1 s2) (\<lambda>r.
       if i = 1 then Inr (j # r)
       else if j = 1 then Inr (i # r)
       else if i \<noteq> j then Inl ValueError
       else Inr (i # r))"
| "elemwise_op_output_shape s1 s2 = Inl ValueError"

definition Add_call :: "runtime \<Rightarrow> tensor \<Rightarrow> tensor \<Rightarrow> error + tensor" where
  "Add_call rt a b =
     (case (tshape a, tshape b) of
        (n1 # s1, n2 # s2) \<Rightarrow>
          if n1 \<noteq> n2 then Inl ValueError
          else bind (elemwise_op_output_shape s1 s2) (\<lambda>r.
               Inr \<lparr>tshape = n1 # r, tdata = rt_add rt (tdata a) (tdata b)\<rparr>)
      | _ \<Rightarrow> Inl ValueError)"

text \<open>\<open>Concatenate\<close> (last axis): all other dimensions must agree; the channels add up.\<close>

definition Concatenate_call :: "runtime \<Rightarrow> tensor list \<Rightarrow> error + tensor" where
  "Concatenate_call rt xs =
     (case xs of
        [] \<Rightarrow> Inl ValueError
      | x # _ \<Rightarrow>
          if tshape x = [] \<or> (\<exists>y \<in> set xs. tshape y = [] \<or> butlast (tshape y) \<noteq> butlast (tshape x))
          then Inl ValueError
          else Inr \<lparr>tshape = butlast (tshape x) @ [sum_list (map (\<lambda>y. last (tshape y)) xs)],
                    tdata = rt_concat rt (map tdata xs)\<rparr>)"

text \<open>
  \<^verbatim>\<open>tf.image.resize(x, size, "bilinear")\<close>: a batch of images (rank 4) and two positive
  target lengths.
\<close>

definition image_resize :: "runtime \<Rightarrow> tensor \<Rightarrow> nat list \<Rightarrow> error + tensor" where
  "image_resize rt x sz =
     (case (tshape x, sz) of
        ([n, h, w, c], [h', w']) \<Rightarrow>
          if h' = 0 \<or> w' = 0 \<or> h = 0 \<or> w = 0 then Inl ValueError
          else Inr \<lparr>tshape = [n, h', w', c], tdata = rt_resize rt sz (tdata x)\<rparr>
      | _ \<Rightarrow> Inl ValueError)"

text \<open>\<^verbatim>\<open>x._shape_tuple()[1:3]\<close>\<close>

definition shape_1_3 :: "tensor \<Rightarrow> nat list" where
  "shape_1_3 x = take 2 (drop 1 (tshape x))"

section \<open>The padding calculator\<close>

definition custom_pad :: "int \<Rightarrow> int \<Rightarrow> layer" where
  "custom_pad k_size d_rate =
     (let s = k_size + (k_size - 1) * (d_rate - 1);
          pad_s = (s - 1) div 2;
          pad_e = (s - 1) - pad_s
      in ZeroPadding2D pad_s pad_e)"

section \<open>Building blocks\<close>

subsection \<open>ConvBlock\<close>

record ConvBlock =
  cb_blocks :: "layer list"

definition ConvBlock_init :: "nat \<Rightarrow> nat \<Rightarrow> nat \<Rightarrow> nat \<Rightarrow> ConvBlock" where
  "ConvBlock_init n_filters k_size stride d_rate =
     (let pad_type = (if stride = 1 then Same else Valid)
      in \<lparr>cb_blocks =
            (if stride > 1 then [custom_pad (int k_size) (int d_rate)] else []) @
            [Conv2D n_filters k_size stride pad_type False d_rate]\<rparr>)"

text \<open>
  \<open>ConvBlock_init\<close> is the list of layers the constructor assembles; \<open>ConvBlock_new\<close>
  is the constructor call, which raises when one of these layers refuses its arguments.
  The same holds for the other blocks.
\<close>

definition ConvBlock_new :: "nat \<Rightarrow> nat \<Rightarrow> nat \<Rightarrow> nat \<Rightarrow> error + ConvBlock" where
  "ConvBlock_new n_filters k_size stride d_rate =
     (let b = ConvBlock_init n_filters k_size stride d_rate in constructed (cb_blocks b) b)"

text \<open>The loop \<^verbatim>\<open>for block in self.blocks: x = block(x)\<close>.\<close>

fun run_layers :: "runtime \<Rightarrow> layer list \<Rightarrow> tensor \<Rightarrow> error + tensor" where
  "run_layers rt [] x = Inr x"
| "run_layers rt (l # ls) x = bind (apply_layer rt l x) (run_layers rt ls)"

definition ConvBlock_call :: "runtime \<Rightarrow> ConvBlock \<Rightarrow> tensor \<Rightarrow> error + tensor" where
  "ConvBlock_call rt b x = run_layers rt (cb_blocks b) x"

subsection \<open>BasicBlock\<close>

record BasicBlock =
  bb_blocks :: "layer list"

text \<open>The dilation argument is accepted and not used: the convolution has rate 1.\<close>

definition BasicBlock_init :: "nat \<Rightarrow> nat \<Rightarrow> nat \<Rightarrow> nat \<Rightarrow> BasicBlock" where
  "BasicBlock_init n_filters k_size stride d_rate =
     \<lparr>bb_blocks = [Conv2D n_filters k_size stride Same False 1, BatchNormalization, ReLU]\<rparr>"

definition BasicBlock_call :: "runtime \<Rightarrow> BasicBlock \<Rightarrow> tensor \<Rightarrow> error + tensor" where
  "BasicBlock_call rt b x = run_layers rt (bb_blocks b) x"

subsection \<open>SeparableConvBlock\<close>

record SeparableConvBlock =
  scb_blocks :: "layer option list"

definition SeparableConvBlock_init :: "nat \<Rightarrow> nat \<Rightarrow> nat \<Rightarrow> nat \<Rightarrow> bool \<Rightarrow> SeparableConvBlock" where
  "SeparableConvBlock_init n_filters k_size stride d_rate activation =
     (let pad_type = (if stride = 1 then Same else Valid)
      in \<lparr>scb_blocks =
           [if stride > 1 then Some (custom_pad (int k_size) (int d_rate)) else None,
            if activation = False then Some ReLU else None,
            Some (DepthwiseConv2D k_size stride pad_type False d_rate),
            Some BatchNormalization,
            if activation = True then Some ReLU else None,
            Some (Conv2D n_filters 1 1 Same False 1),
            Some BatchNormalization,
            if activation = True then Some ReLU else None]\<rparr>)"

text \<open>The loop applies every entry that is not \<^verbatim>\<open>None\<close>, in order.\<close>

fun run_optional :: "runtime \<Rightarrow> layer option list \<Rightarrow> tensor \<Rightarrow> error + tensor" where
  "run_optional rt [] x = Inr x"
| "run_optional rt (None # ls) x = run_optional rt ls x"
| "run_optional rt (Some l # ls) x = bind (apply_layer rt l x) (run_optional rt ls)"

definition SeparableConvBlock_call :: "runtime \<Rightarrow> SeparableConvBlock \<Rightarrow> tensor \<Rightarrow> error + tensor" where
  "SeparableConvBlock_call rt b x = run_optional rt (scb_blocks b) x"

text \<open>The layers a block really applies: its entries without the \<^verbatim>\<open>None\<close> ones.\<close>

definition applied_layers :: "SeparableConvBlock \<Rightarrow> layer list" where
  "applied_layers b = List.map_filter (\<lambda>l. l) (scb_blocks b)"

definition SeparableConvBlock_new ::
  "nat \<Rightarrow> nat \<Rightarrow> nat \<Rightarrow> nat \<Rightarrow> bool \<Rightarrow> error + SeparableConvBlock" where
  "SeparableConvBlock_new n_filters k_size stride d_rate activation =
     (let b = SeparableConvBlock_init n_filters k_size stride d_rate activation
      in constructed (applied_layers b) b)"

subsection \<open>XceptionBlock\<close>

text \<open>Python's \<^verbatim>\<open>xs[i]\<close> for \<open>i \<ge> 0\<close>, and \<^verbatim>\<open>xs[-1]\<close>.\<close>

definition py_index :: "'a list \<Rightarrow> nat \<Rightarrow> error + 'a" where
  "py_index xs i = (if i < length xs then Inr (xs ! i) else Inl IndexError)"

definition py_last :: "'a list \<Rightarrow> error + 'a" where
  "py_last xs = (if xs = [] then Inl IndexError else Inr (last xs))"

fun map_err :: "('a \<Rightarrow> error + 'b) \<Rightarrow> 'a list \<Rightarrow> error + 'b list" where
  "map_err f [] = Inr []"
| "map_err f (x # xs) = bind (f x) (\<lambda>y. bind (map_err f xs) (\<lambda>ys. Inr (y # ys)))"

text \<open>
  \<open>skip_type\<close> is \<^verbatim>\<open>"conv"\<close>, \<^verbatim>\<open>"sum"\<close> or \<^verbatim>\<open>None\<close> in the program; any other string
  is accepted by the constructor. The attributes \<open>skipconv\<close> and \<open>skipbn\<close> exist only
  when \<open>skip_type\<close> is \<^verbatim>\<open>"conv"\<close>.
\<close>

record XceptionBlock =
  sepconv_blocks :: "SeparableConvBlock list"
  skip_type :: "string option"
  return_skip :: bool
  skipconv :: "ConvBlock option"
  skipbn :: "layer option"

definition XceptionBlock_init ::
  "nat list \<Rightarrow> string option \<Rightarrow> nat \<Rightarrow> nat \<Rightarrow> bool \<Rightarrow> bool \<Rightarrow> error + XceptionBlock" where
  "XceptionBlock_init n_filters skip_ty stride d_rate activation ret_skip =
     bind (map_err (\<lambda>i. bind (py_index n_filters i) (\<lambda>f.
             SeparableConvBlock_new f 3 (if i = 2 then stride else 1) d_rate activation))
           [0 ..< 3]) (\<lambda>bs.
     if skip_ty = Some ''conv'' then
       bind (py_last n_filters) (\<lambda>f.
       bind (ConvBlock_new f 1 stride 1) (\<lambda>sc.
         Inr \<lparr>sepconv_blocks = bs, skip_type = skip_ty, return_skip = ret_skip,
              skipconv = Some sc,
              skipbn = Some BatchNormalization\<rparr>))
     else
       Inr \<lparr>sepconv_blocks = bs, skip_type = skip_ty, return_skip = ret_skip,
            skipconv = None, skipbn = None\<rparr>)"

text \<open>A call returns one tensor, or the pair \<^verbatim>\<open>(out, skip)\<close>.\<close>

datatype result = One tensor | Two tensor tensor

text \<open>
  The loop over \<^verbatim>\<open>enumerate(self.sepconv_blocks)\<close>: \<open>skip\<close> is bound when the block
  of index 1 has run.
\<close>

fun run_sepconv ::
  "runtime \<Rightarrow> (nat \<times> SeparableConvBlock) list \<Rightarrow> tensor \<Rightarrow> tensor option \<Rightarrow>
   error + (tensor \<times> tensor option)" where
  "run_sepconv rt [] residual skip = Inr (residual, skip)"
| "run_sepconv rt ((i, block) # bs) residual skip =
     bind (SeparableConvBlock_call rt block residual) (\<lambda>r.
       run_sepconv rt bs r (if i = 1 then Some r else skip))"

definition XceptionBlock_call :: "runtime \<Rightarrow> XceptionBlock \<Rightarrow> tensor \<Rightarrow> error + result" where
  "XceptionBlock_call rt blk x =
     bind (run_sepconv rt (enumerate 0 (sepconv_blocks blk)) x None) (\<lambda>(residual, skip).
     bind (if skip_type blk = Some ''conv'' then
             (case (skipconv blk, skipbn blk) of
                (Some sc, Some bn) \<Rightarrow>
                  bind (ConvBlock_call rt sc x) (\<lambda>out.
                  bind (apply_layer rt bn out) (\<lambda>out.
                  Add_call rt residual out))
              | _ \<Rightarrow> Inl AttributeError)
           else if skip_type blk = Some ''sum'' then Add_call rt residual x
           else if skip_type blk = None then Inr residual
           else Inl UnboundLocalError) (\<lambda>out.
     if return_skip blk then
       (case skip of None \<Rightarrow> Inl UnboundLocalError | Some s \<Rightarrow> Inr (Two out s))
     else Inr (One out)))"

section \<open>The backbone\<close>

datatype block = Basic BasicBlock | Xception XceptionBlock

record XceptionBackbone =
  entry_flow :: "block list"
  middle_flow :: "XceptionBlock list"
  exit_flow :: "XceptionBlock list"

definition XceptionBackbone_init :: "int \<Rightarrow> error + XceptionBackbone" where
  "XceptionBackbone_init output_stride =
     (let x_stride = (if output_stride = 8 then 1 else 2);
          d_rates = (if output_stride = 8 then (2, 2, 4) else (1, 1, 2))
      in
      bind (XceptionBlock_init (replicate 3 128) (Some ''conv'') 2 1 False False) (\<lambda>e2.
      bind (XceptionBlock_init (replicate 3 256) (Some ''conv'') 2 1 False True) (\<lambda>e3.
      bind (XceptionBlock_init (replicate 3 728) (Some ''conv'') x_stride 1 False False) (\<lambda>e4.
      bind (map_err (\<lambda>_. XceptionBlock_init (replicate 3 728) (Some ''sum'') 1 (fst d_rates)
                             False False) [0 ..< 16]) (\<lambda>mf.
      bind (XceptionBlock_init [728, 1024, 1024] (Some ''conv'') 1 (fst (snd d_rates))
              False False) (\<lambda>x0.
      bind (XceptionBlock_init [1536, 1536, 2048] None 1 (snd (snd d_rates)) True False) (\<lambda>x1.
      Inr \<lparr>entry_flow = [Basic (BasicBlock_init 32 3 2 1), Basic (BasicBlock_init 64 3 1 1),
                          Xception e2, Xception e3, Xception e4],
           middle_flow = mf,
           exit_flow = [x0, x1]\<rparr>)))))))"

definition block_call :: "runtime \<Rightarrow> block \<Rightarrow> tensor \<Rightarrow> error + result" where
  "block_call rt b x =
     (case b of
        Basic bb \<Rightarrow> bind (BasicBlock_call rt bb x) (\<lambda>y. Inr (One y))
      | Xception xb \<Rightarrow> XceptionBlock_call rt xb x)"

text \<open>
  The entry loop: at index 3 the result is unpacked into \<^verbatim>\<open>x, skip\<close>; elsewhere the
  result is the next \<open>x\<close>. Unpacking a single tensor, or feeding a pair to the next
  block, is an error.
\<close>

fun run_entry ::
  "runtime \<Rightarrow> (nat \<times> block) list \<Rightarrow> tensor \<Rightarrow> tensor option \<Rightarrow>
   error + (tensor \<times> tensor option)" where
  "run_entry rt [] x skip = Inr (x, skip)"
| "run_entry rt ((i, b) # bs) x skip =
     bind (block_call rt b x) (\<lambda>r.
       if i = 3 then
         (case r of Two y s \<Rightarrow> run_entry rt bs y (Some s) | One y \<Rightarrow> Inl ValueError)
       else
         (case r of One y \<Rightarrow> run_entry rt bs y skip | Two y s \<Rightarrow> Inl TypeError))"

fun run_blocks :: "runtime \<Rightarrow> XceptionBlock list \<Rightarrow> tensor \<Rightarrow> error + tensor" where
  "run_blocks rt [] x = Inr x"
| "run_blocks rt (b # bs) x =
     bind (XceptionBlock_call rt b x) (\<lambda>r.
       case r of One y \<Rightarrow> run_blocks rt bs y | Two y s \<Rightarrow> Inl TypeError)"

definition XceptionBackbone_call ::
  "runtime \<Rightarrow> XceptionBackbone \<Rightarrow> tensor \<Rightarrow> error + (tensor \<times> tensor)" where
  "XceptionBackbone_call rt bb x =
     bind (run_entry rt (enumerate 0 (entry_flow bb)) x None) (\<lambda>(x, skip).
     bind (run_blocks rt (middle_flow bb) x) (\<lambda>x.
     bind (run_blocks rt (exit_flow bb) x) (\<lambda>x.
     case skip of None \<Rightarrow> Inl UnboundLocalError | Some s \<Rightarrow> Inr (x, s))))"

section \<open>Atrous spatial pyramid pooling\<close>

datatype pooling_block = PLayer layer | PBasic BasicBlock

record ASPP =
  block_1x1 :: BasicBlock
  block_3x3_rate_S :: SeparableConvBlock
  block_3x3_rate_M :: SeparableConvBlock
  block_3x3_rate_L :: SeparableConvBlock
  blocks_pooling :: "pooling_block list"
  concat_1x1 :: BasicBlock

definition ASPP_init :: "int \<Rightarrow> ASPP" where
  "ASPP_init output_stride =
     (let d_rates = (if output_stride = 8 then (12, 24, 36) else (6, 12, 18))
      in \<lparr>block_1x1 = BasicBlock_init 256 1 1 1,
          block_3x3_rate_S = SeparableConvBlock_init 256 3 1 (fst d_rates) True,
          block_3x3_rate_M = SeparableConvBlock_init 256 3 1 (fst (snd d_rates)) True,
          block_3x3_rate_L = SeparableConvBlock_init 256 3 1 (snd (snd d_rates)) True,
          blocks_pooling = [PLayer GlobalAveragePooling2D, PLayer Lambda_newaxis,
                            PBasic (BasicBlock_init 256 1 1 1)],
          concat_1x1 = BasicBlock_init 256 1 1 1\<rparr>)"

fun run_pooling :: "runtime \<Rightarrow> pooling_block list \<Rightarrow> tensor \<Rightarrow> error + tensor" where
  "run_pooling rt [] x = Inr x"
| "run_pooling rt (PLayer l # bs) x = bind (apply_layer rt l x) (run_pooling rt bs)"
| "run_pooling rt (PBasic b # bs) x = bind (BasicBlock_call rt b x) (run_pooling rt bs)"

definition ASPP_call :: "runtime \<Rightarrow> ASPP \<Rightarrow> tensor \<Rightarrow> error + tensor" where
  "ASPP_call rt a x =
     bind (BasicBlock_call rt (block_1x1 a) x) (\<lambda>x1.
     bind (SeparableConvBlock_call rt (block_3x3_rate_S a) x) (\<lambda>x2.
     bind (SeparableConvBlock_call rt (block_3x3_rate_M a) x) (\<lambda>x3.
     bind (SeparableConvBlock_call rt (block_3x3_rate_L a) x) (\<lambda>x4.
     bind (run_pooling rt (blocks_pooling a) x) (\<lambda>x5.
     let f_shape = shape_1_3 x in
     bind (image_resize rt x5 f_shape) (\<lambda>x5.
     bind (Concatenate_call rt [x1, x2, x3, x4, x5]) (\<lambda>x.
     BasicBlock_call rt (concat_1x1 a) x)))))))"

section \<open>The decoder and the model\<close>

record DeepLabV3Decoder =
  skip_block :: BasicBlock
  sepconv1 :: SeparableConvBlock
  sepconv2 :: SeparableConvBlock
  conv :: layer
  sigmoid_layer :: layer

text \<open>
  The class-score convolution takes \<open>n_classes\<close> as its number of filters, which the
  layer validates; the other layers are created with constants it accepts.
\<close>

definition DeepLabV3Decoder_init :: "nat \<Rightarrow> error + DeepLabV3Decoder" where
  "DeepLabV3Decoder_init n_classes =
     constructed [Conv2D n_classes 1 1 Same True 1]
       \<lparr>skip_block = BasicBlock_init 48 1 1 1,
        sepconv1 = SeparableConvBlock_init 256 3 1 1 True,
        sepconv2 = SeparableConvBlock_init 256 3 1 1 True,
        conv = Conv2D n_classes 1 1 Same True 1,
        sigmoid_layer = Activation ''sigmoid''\<rparr>"

definition DeepLabV3Decoder_call ::
  "runtime \<Rightarrow> DeepLabV3Decoder \<Rightarrow> tensor \<Rightarrow> tensor \<Rightarrow> nat list \<Rightarrow> error + tensor" where
  "DeepLabV3Decoder_call rt dec x skip input_shape =
     (let skip_shape = shape_1_3 skip in
      bind (image_resize rt x skip_shape) (\<lambda>x.
      bind (BasicBlock_call rt (skip_block dec) skip) (\<lambda>skip.
      bind (Concatenate_call rt [x, skip]) (\<lambda>x.
      bind (SeparableConvBlock_call rt (sepconv1 dec) x) (\<lambda>x.
      bind (SeparableConvBlock_call rt (sepconv2 dec) x) (\<lambda>x.
      bind (apply_layer rt (conv dec) x) (\<lambda>x.
      bind (image_resize rt x input_shape) (\<lambda>x.
      apply_layer rt (sigmoid_layer dec) x))))))))"

record DeepLabV3pXc =
  backbone :: XceptionBackbone
  aspp :: ASPP
  decoder :: DeepLabV3Decoder

text \<open>
  The body of \<^verbatim>\<open>DeepLabV3pXc.__init__\<close>: what the constructor does once an instance of
  the class is being initialised.
\<close>

definition DeepLabV3pXc_init_body :: "int \<Rightarrow> nat \<Rightarrow> error + DeepLabV3pXc" where
  "DeepLabV3pXc_init_body output_stride n_classes =
     bind (XceptionBackbone_init output_stride) (\<lambda>bb.
     bind (DeepLabV3Decoder_init n_classes) (\<lambda>dec.
     Inr \<lparr>backbone = bb, aspp = ASPP_init output_stride, decoder = dec\<rparr>))"

definition DeepLabV3pXc_call :: "runtime \<Rightarrow> DeepLabV3pXc \<Rightarrow> tensor \<Rightarrow> error + tensor" where
  "DeepLabV3pXc_call rt m x =
     (let input_shape = shape_1_3 x in
      bind (XceptionBackbone_call rt (backbone m) x) (\<lambda>(x, skip).
      bind (ASPP_call rt (aspp m) x) (\<lambda>x.
      DeepLabV3Decoder_call rt (decoder m) x skip input_shape)))"

section \<open>Loading the module\<close>

text \<open>
  Python executes the module top to bottom. An import and a \<^verbatim>\<open>def\<close> bind a name;
  a \<^verbatim>\<open>class\<close> statement first evaluates its base-class expressions, which looks up
  the names they start with in the module's namespace (then in the builtins), and binds
  the class name only afterwards. Method bodies are not evaluated by the statement.
\<close>

datatype stmt = Import string | Def string | ClassDef string "string list"

text \<open>The builtins the program's method bodies use; none of them is a class it extends.\<close>

definition builtins :: "string list" where
  "builtins = [''super'', ''range'', ''enumerate'', ''print'']"

fun exec_stmt :: "string list \<Rightarrow> stmt \<Rightarrow> error + string list" where
  "exec_stmt ns (Import n) = Inr (n # ns)"
| "exec_stmt ns (Def n) = Inr (n # ns)"
| "exec_stmt ns (ClassDef n bases) =
     (case filter (\<lambda>b. b \<notin> set ns \<and> b \<notin> set builtins) bases of
        [] \<Rightarrow> Inr (n # ns)
      | b # _ \<Rightarrow> Inl (NameError b))"

fun exec_module :: "string list \<Rightarrow> stmt list \<Rightarrow> error + string list" where
  "exec_module ns [] = Inr ns"
| "exec_module ns (st # sts) = bind (exec_stmt ns st) (\<lambda>ns'. exec_module ns' sts)"

text \<open>
  The statements of \<^verbatim>\<open>deeplabv3p.py\<close>: \<^verbatim>\<open>import tensorflow as tf\<close>,
  \<^verbatim>\<open>from tensorflow.keras import layers\<close>, one function, and eight classes, seven
  extending \<^verbatim>\<open>layers.Layer\<close> and the last one \<^verbatim>\<open>Model\<close>.
\<close>

definition deeplabv3p_module :: "stmt list" where
  "deeplabv3p_module =
     [Import ''tf'', Import ''layers'', Def ''custom_pad'',
      ClassDef ''ConvBlock'' [''layers''],
      ClassDef ''BasicBlock'' [''layers''],
      ClassDef ''SeparableConvBlock'' [''layers''],
      ClassDef ''XceptionBlock'' [''layers''],
      ClassDef ''XceptionBackbone'' [''layers''],
      ClassDef ''ASPP'' [''layers''],
      ClassDef ''DeepLabV3Decoder'' [''layers''],
      ClassDef ''DeepLabV3pXc'' [''Model'']]"

text \<open>
  The expression \<^verbatim>\<open>DeepLabV3pXc(output_stride, n_classes)\<close>, evaluated where the
  module's statements have been executed: the class name is looked up in the namespace
  they left, and the constructor body runs only if it is bound there.
\<close>

definition DeepLabV3pXc_init :: "int \<Rightarrow> nat \<Rightarrow> error + DeepLabV3pXc" where
  "DeepLabV3pXc_init output_stride n_classes =
     bind (exec_module [] deeplabv3p_module) (\<lambda>ns.
       if ''DeepLabV3pXc'' \<in> set ns then DeepLabV3pXc_init_body output_stride n_classes
       else Inl (NameError ''DeepLabV3pXc''))"

section \<open>Auxiliary notions for the statements\<close>

text \<open>A value between 0 and 1.\<close>

fun in_unit :: "fval \<Rightarrow> bool" where
  "in_unit (Fin v) = (0 \<le> v \<and> v \<le> 1)"
| "in_unit v = False"

text \<open>The value a computation's result holds at an index.\<close>

definition value_at :: "error + tensor \<Rightarrow> nat list \<Rightarrow> error + fval" where
  "value_at m i = (case m of Inl e \<Rightarrow> Inl e | Inr y \<Rightarrow> Inr (tdata y i))"

text \<open>The block the constructor builds from three filter counts.\<close>

definition XceptionBlock_of ::
  "nat \<Rightarrow> nat \<Rightarrow> nat \<Rightarrow> string option \<Rightarrow> nat \<Rightarrow> nat \<Rightarrow> bool \<Rightarrow> bool \<Rightarrow> XceptionBlock" where
  "XceptionBlock_of f0 f1 f2 st stride d act rs =
     \<lparr>sepconv_blocks = [SeparableConvBlock_init f0 3 1 d act,
                        SeparableConvBlock_init f1 3 1 d act,
                        SeparableConvBlock_init f2 3 stride d act],
      skip_type = st, return_skip = rs,
      skipconv = (if st = Some ''conv'' then Some (ConvBlock_init f2 1 stride 1) else None),
      skipbn = (if st = Some ''conv'' then Some BatchNormalization else None)\<rparr>"


text \<open>The shapes of a block's result: of the output, and of the side tap if there is one.\<close>

definition result_shapes :: "error + result \<Rightarrow> error + nat list list" where
  "result_shapes m =
     (case m of Inl e \<Rightarrow> Inl e
      | Inr (One y) \<Rightarrow> Inr [tshape y]
      | Inr (Two y s) \<Rightarrow> Inr [tshape y, tshape s])"

text \<open>The backbone and the decoder the constructors build.\<close>

definition XceptionBackbone_of :: "int \<Rightarrow> XceptionBackbone" where
  "XceptionBackbone_of os =
     \<lparr>entry_flow =
        [Basic (BasicBlock_init 32 3 2 1), Basic (BasicBlock_init 64 3 1 1),
         Xception (XceptionBlock_of 128 128 128 (Some ''conv'') 2 1 False False),
         Xception (XceptionBlock_of 256 256 256 (Some ''conv'') 2 1 False True),
         Xception (XceptionBlock_of 728 728 728 (Some ''conv'') (if os = 8 then 1 else 2) 1
                     False False)],
      middle_flow =
        replicate 16 (XceptionBlock_of 728 728 728 (Some ''sum'') 1 (if os = 8 then 2 else 1)
                        False False),
      exit_flow =
        [XceptionBlock_of 728 1024 1024 (Some ''conv'') 1 (if os = 8 then 2 else 1) False False,
         XceptionBlock_of 1536 1536 2048 None 1 (if os = 8 then 4 else 2) True False]\<rparr>"

definition DeepLabV3Decoder_of :: "nat \<Rightarrow> DeepLabV3Decoder" where
  "DeepLabV3Decoder_of n_classes =
     \<lparr>skip_block = BasicBlock_init 48 1 1 1,
      sepconv1 = SeparableConvBlock_init 256 3 1 1 True,
      sepconv2 = SeparableConvBlock_init 256 3 1 1 True,
      conv = Conv2D n_classes 1 1 Same True 1,
      sigmoid_layer = Activation ''sigmoid''\<rparr>"

text \<open>The model the constructor body assembles from them.\<close>

definition model_of :: "int \<Rightarrow> nat \<Rightarrow> DeepLabV3pXc" where
  "model_of os n_classes =
     \<lparr>backbone = XceptionBackbone_of os, aspp = ASPP_init os,
      decoder = DeepLabV3Decoder_of n_classes\<rparr>"

text \<open>
  A runtime whose primitives leave the contents alone; a runtime whose layers return NaN
  everywhere (convolution kernels that hold NaN, or an overflow); an all-zero tensor.
\<close>

definition id_runtime :: runtime where
  "id_runtime = \<lparr>rt_layer = (\<lambda>l d. d), rt_add = (\<lambda>a b. a), rt_concat = (\<lambda>ds i. Fin 0),
                  rt_resize = (\<lambda>sz d. d)\<rparr>"

definition nan_runtime :: runtime where
  "nan_runtime = \<lparr>rt_layer = (\<lambda>l d i. NaN), rt_add = (\<lambda>a b. a), rt_concat = (\<lambda>ds i. Fin 0),
                   rt_resize = (\<lambda>sz d. d)\<rparr>"

definition zeros :: "nat list \<Rightarrow> tensor" where
  "zeros s = \<lparr>tshape = s, tdata = (\<lambda>i. Fin 0)\<rparr>"

section \<open>The padding calculator: properties\<close>

lemma bind_Inr: "bind (Inr v) f = f v"
  by (simp add: bind_def)

lemma bind_Inl: "bind (Inl e) f = Inl e"
  by (simp add: bind_def)

lemma custom_pad_span:
  "custom_pad k d = ZeroPadding2D ((k + (k - 1) * (d - 1) - 1) div 2)
     ((k + (k - 1) * (d - 1) - 1) - (k + (k - 1) * (d - 1) - 1) div 2)"
  by (simp add: custom_pad_def Let_def)

lemma custom_pad_kernel3:
  "custom_pad 3 1 = ZeroPadding2D 1 1" "custom_pad 3 2 = ZeroPadding2D 2 2"
  "custom_pad 3 12 = ZeroPadding2D 12 12"
  by (simp_all add: custom_pad_def Let_def)

lemma custom_pad_kernel3_any: "0 < d \<Longrightarrow> custom_pad 3 d = ZeroPadding2D d d"
  by (simp add: custom_pad_def Let_def)

lemma custom_pad_kernel1: "custom_pad 1 d = ZeroPadding2D 0 0"
  by (simp add: custom_pad_def Let_def)

text \<open>
  Claim C4 (padding per dimension). The calculator's arithmetic is the claimed one
  (\<open>custom_pad_span\<close>), but the two numbers are handed to \<open>ZeroPadding2D\<close> as one flat
  pair, which pads the height by the first on both sides and the width by the second on
  both sides. For kernel 2 and rate 1 the span is 2, so \<open>pad_start = 0\<close> and
  \<open>pad_end = 1\<close>: a 4 by 4 map becomes 4 by 6, where padding each dimension with 0
  before and 1 after would give 5 by 5.
\<close>

theorem custom_pad_even_kernel:
  "custom_pad 2 1 = ZeroPadding2D 0 1 \<and>
   layer_shape (custom_pad 2 1) [1, 4, 4, 1] = Inr [1, 4, 6, 1]"
  by (simp add: custom_pad_def Let_def)

section \<open>SeparableConvBlock: properties\<close>

lemma run_optional_map_filter:
  "run_optional rt ls x = run_layers rt (List.map_filter (\<lambda>l. l) ls) x"
proof (induction ls arbitrary: x)
  case Nil
  show ?case by (simp add: List.map_filter_simps)
next
  case (Cons a ls)
  show ?case
  proof (cases a)
    case None
    with Cons show ?thesis by (simp add: List.map_filter_simps)
  next
    case (Some l)
    with Cons show ?thesis by (simp add: List.map_filter_simps bind_def split: sum.split)
  qed
qed

text \<open>
  Claim C9 (one activation placement). The layers a block applies are, after the
  optional padding: with the flag false, one rectification and then the depthwise
  convolution, normalisation, pointwise convolution, normalisation; with the flag true,
  the same four with a rectification after each normalisation and none in front. A call
  runs exactly these layers in this order.
\<close>

theorem SeparableConvBlock_activation_placement:
  "applied_layers (SeparableConvBlock_init f k stride d act) =
     (if stride > 1 then [custom_pad (int k) (int d)] else []) @
     (if act
      then [DepthwiseConv2D k stride (if stride = 1 then Same else Valid) False d,
            BatchNormalization, ReLU, Conv2D f 1 1 Same False 1, BatchNormalization, ReLU]
      else [ReLU, DepthwiseConv2D k stride (if stride = 1 then Same else Valid) False d,
            BatchNormalization, Conv2D f 1 1 Same False 1, BatchNormalization])
   \<and> SeparableConvBlock_call rt (SeparableConvBlock_init f k stride d act) x =
       run_layers rt (applied_layers (SeparableConvBlock_init f k stride d act)) x"
  by (simp add: applied_layers_def SeparableConvBlock_init_def SeparableConvBlock_call_def
      run_optional_map_filter List.map_filter_simps Let_def)

section \<open>Loading the module: properties\<close>

text \<open>
  Claim C2 (the module cannot be loaded). Executing the module's statements in order
  stops with a \<open>NameError\<close> for \<open>Model\<close> at the last class statement: the statements
  before it succeed and bind neither \<open>Model\<close> nor \<open>Input\<close>, and the class
  \<open>DeepLabV3pXc\<close> is never bound.
\<close>

theorem module_load_fails:
  "exec_module [] deeplabv3p_module = Inl (NameError ''Model'') \<and>
   exec_module [] (butlast deeplabv3p_module) =
     Inr [''DeepLabV3Decoder'', ''ASPP'', ''XceptionBackbone'', ''XceptionBlock'',
          ''SeparableConvBlock'', ''BasicBlock'', ''ConvBlock'', ''custom_pad'',
          ''layers'', ''tf''] \<and>
   last deeplabv3p_module = ClassDef ''DeepLabV3pXc'' [''Model'']"
  by (simp add: deeplabv3p_module_def bind_def builtins_def)

text \<open>So the model's class cannot be instantiated where the module's statements ran.\<close>

lemma DeepLabV3pXc_init_fails: "DeepLabV3pXc_init os n = Inl (NameError ''Model'')"
  by (simp add: DeepLabV3pXc_init_def deeplabv3p_module_def bind_def builtins_def)

section \<open>XceptionBlock: properties\<close>

lemma upt_0_3: "[0 ..< 3] = [0, 1, 2]"
  by (simp add: upt_rec)

lemma replicate_3: "replicate 3 x = [x, x, x]"
  by (simp add: numeral_3_eq_3)

lemma map_err_const: "map_err (\<lambda>_. Inr v) xs = Inr (replicate (length xs) v)"
  by (induction xs) (simp_all add: bind_def)

lemma SeparableConvBlock_new_ok:
  "0 < f \<Longrightarrow> 0 < k \<Longrightarrow> 0 < s \<Longrightarrow> 0 < d \<Longrightarrow> s = 1 \<or> d = 1 \<Longrightarrow>
   SeparableConvBlock_new f k s d act = Inr (SeparableConvBlock_init f k s d act)"
  by (auto simp: SeparableConvBlock_new_def constructed_def applied_layers_def
      SeparableConvBlock_init_def List.map_filter_simps Let_def custom_pad_def)

lemma ConvBlock_new_ok:
  "0 < f \<Longrightarrow> 0 < k \<Longrightarrow> 0 < s \<Longrightarrow> 0 < d \<Longrightarrow> s = 1 \<or> d = 1 \<Longrightarrow>
   ConvBlock_new f k s d = Inr (ConvBlock_init f k s d)"
  by (auto simp: ConvBlock_new_def constructed_def ConvBlock_init_def Let_def custom_pad_def)

lemma SeparableConvBlock_new_Inr:
  "SeparableConvBlock_new f k s d act = Inr b \<Longrightarrow> b = SeparableConvBlock_init f k s d act"
  by (auto simp: SeparableConvBlock_new_def constructed_def Let_def split: if_splits)

lemma ConvBlock_new_Inr:
  "ConvBlock_new f k s d = Inr b \<Longrightarrow> b = ConvBlock_init f k s d"
  by (auto simp: ConvBlock_new_def constructed_def Let_def split: if_splits)

lemma XceptionBlock_init_three:
  assumes "0 < f0" "0 < f1" "0 < f2" "0 < stride" "0 < d" "stride = 1 \<or> d = 1"
  shows "XceptionBlock_init [f0, f1, f2] st stride d act rs =
     Inr (XceptionBlock_of f0 f1 f2 st stride d act rs)"
  using assms
  by (simp add: XceptionBlock_init_def XceptionBlock_of_def upt_0_3 py_index_def py_last_def
      bind_Inr SeparableConvBlock_new_ok ConvBlock_new_ok)

lemma XceptionBlock_init_fields:
  assumes "XceptionBlock_init n_filters st stride d act rs = Inr blk"
  shows "sepconv_blocks blk =
           [SeparableConvBlock_init (n_filters ! 0) 3 1 d act,
            SeparableConvBlock_init (n_filters ! 1) 3 1 d act,
            SeparableConvBlock_init (n_filters ! 2) 3 stride d act]"
    and "skip_type blk = st" and "return_skip blk = rs"
    and "st = Some ''conv'' \<Longrightarrow> skipconv blk = Some (ConvBlock_init (last n_filters) 1 stride 1)"
    and "st = Some ''conv'' \<Longrightarrow> skipbn blk = Some BatchNormalization"
proof -
  obtain b0 b1 b2 where
    i0: "0 < length n_filters" "SeparableConvBlock_new (n_filters ! 0) 3 1 d act = Inr b0" and
    i1: "1 < length n_filters" "SeparableConvBlock_new (n_filters ! 1) 3 1 d act = Inr b1" and
    i2: "2 < length n_filters" "SeparableConvBlock_new (n_filters ! 2) 3 stride d act = Inr b2" and
    rest: "(if st = Some ''conv'' then
             bind (py_last n_filters) (\<lambda>f.
             bind (ConvBlock_new f 1 stride 1) (\<lambda>sc.
               Inr \<lparr>sepconv_blocks = [b0, b1, b2], skip_type = st, return_skip = rs,
                    skipconv = Some sc, skipbn = Some BatchNormalization\<rparr>))
           else Inr \<lparr>sepconv_blocks = [b0, b1, b2], skip_type = st, return_skip = rs,
                     skipconv = None, skipbn = None\<rparr>) = Inr blk"
    using assms
    by (auto simp: XceptionBlock_init_def upt_0_3 py_index_def bind_def
        split: sum.splits if_splits)
  have b: "b0 = SeparableConvBlock_init (n_filters ! 0) 3 1 d act"
    "b1 = SeparableConvBlock_init (n_filters ! 1) 3 1 d act"
    "b2 = SeparableConvBlock_init (n_filters ! 2) 3 stride d act"
    using i0(2) i1(2) i2(2) by (simp_all add: SeparableConvBlock_new_Inr)
  show "sepconv_blocks blk =
           [SeparableConvBlock_init (n_filters ! 0) 3 1 d act,
            SeparableConvBlock_init (n_filters ! 1) 3 1 d act,
            SeparableConvBlock_init (n_filters ! 2) 3 stride d act]"
    using rest b by (auto simp: bind_def split: sum.splits if_splits)
  show "skip_type blk = st" using rest by (auto simp: bind_def split: sum.splits if_splits)
  show "return_skip blk = rs" using rest by (auto simp: bind_def split: sum.splits if_splits)
  show "skipconv blk = Some (ConvBlock_init (last n_filters) 1 stride 1)" if "st = Some ''conv''"
    using rest that
    by (auto simp: bind_def py_last_def split: sum.splits if_splits dest: ConvBlock_new_Inr)
  show "skipbn blk = Some BatchNormalization" if "st = Some ''conv''"
    using rest that by (auto simp: bind_def split: sum.splits if_splits)
qed

lemma XceptionBlock_call_of:
  "XceptionBlock_call rt (XceptionBlock_of f0 f1 f2 st stride d act rs) x =
     bind (SeparableConvBlock_call rt (SeparableConvBlock_init f0 3 1 d act) x) (\<lambda>r1.
     bind (SeparableConvBlock_call rt (SeparableConvBlock_init f1 3 1 d act) r1) (\<lambda>r2.
     bind (SeparableConvBlock_call rt (SeparableConvBlock_init f2 3 stride d act) r2) (\<lambda>r3.
     bind (if st = Some ''conv'' then
             bind (ConvBlock_call rt (ConvBlock_init f2 1 stride 1) x) (\<lambda>p.
             bind (apply_layer rt BatchNormalization p) (\<lambda>q. Add_call rt r3 q))
           else if st = Some ''sum'' then Add_call rt r3 x
           else if st = None then Inr r3
           else Inl UnboundLocalError) (\<lambda>out.
     Inr (if rs then Two out r2 else One out)))))"
  by (simp add: XceptionBlock_of_def XceptionBlock_call_def enumerate_simps bind_def
      split: sum.split)

text \<open>
  Claim C5 (structure of an Xception block). For every block the constructor returns,
  a call runs the three separable blocks in sequence, the first two at stride 1 and the
  third at the block's stride, all at the block's dilation rate. The result of the
  second is the side tap. With skip type \<^verbatim>\<open>"conv"\<close> the original input goes through a
  1 by 1 convolution block of the block's stride and a batch normalisation and is added
  to the third result; with \<^verbatim>\<open>"sum"\<close> the original input is added directly; with
  \<^verbatim>\<open>None\<close> the third result is the output. The call returns the pair of output and
  side tap exactly when \<open>return_skip\<close> is set, and the output alone otherwise.
\<close>

theorem XceptionBlock_dataflow:
  "XceptionBlock_init n_filters st stride d act rs = Inr blk \<Longrightarrow>
   XceptionBlock_call rt blk x =
     bind (SeparableConvBlock_call rt (SeparableConvBlock_init (n_filters ! 0) 3 1 d act) x) (\<lambda>r1.
     bind (SeparableConvBlock_call rt (SeparableConvBlock_init (n_filters ! 1) 3 1 d act) r1) (\<lambda>r2.
     bind (SeparableConvBlock_call rt (SeparableConvBlock_init (n_filters ! 2) 3 stride d act) r2) (\<lambda>r3.
     bind (if st = Some ''conv'' then
             bind (ConvBlock_call rt (ConvBlock_init (last n_filters) 1 stride 1) x) (\<lambda>p.
             bind (apply_layer rt BatchNormalization p) (\<lambda>q. Add_call rt r3 q))
           else if st = Some ''sum'' then Add_call rt r3 x
           else if st = None then Inr r3
           else Inl UnboundLocalError) (\<lambda>out.
     Inr (if rs then Two out r2 else One out)))))"
proof -
  assume a: "XceptionBlock_init n_filters st stride d act rs = Inr blk"
  note f = XceptionBlock_init_fields [OF a]
  show ?thesis
  proof (cases "st = Some ''conv''")
    case True
    show ?thesis
      by (simp add: XceptionBlock_call_def f(1,2,3) f(4) [OF True] f(5) [OF True] True
          enumerate_simps bind_def split: sum.split)
  next
    case False
    show ?thesis
      by (simp add: XceptionBlock_call_def f(1,2,3) False enumerate_simps bind_def
          split: sum.split)
  qed
qed

theorem XceptionBlock_dataflow_witness:
  "XceptionBlock_init [4, 5, 6] (Some ''conv'') 2 1 False True =
     Inr (XceptionBlock_of 4 5 6 (Some ''conv'') 2 1 False True) \<and>
   XceptionBlock_call id_runtime (XceptionBlock_of 4 5 6 (Some ''conv'') 2 1 False True)
       (zeros [1, 8, 8, 3]) =
     bind (SeparableConvBlock_call id_runtime (SeparableConvBlock_init 4 3 1 1 False)
             (zeros [1, 8, 8, 3])) (\<lambda>r1.
     bind (SeparableConvBlock_call id_runtime (SeparableConvBlock_init 5 3 1 1 False) r1) (\<lambda>r2.
     bind (SeparableConvBlock_call id_runtime (SeparableConvBlock_init 6 3 2 1 False) r2) (\<lambda>r3.
     bind (bind (ConvBlock_call id_runtime (ConvBlock_init 6 1 2 1) (zeros [1, 8, 8, 3])) (\<lambda>p.
           bind (apply_layer id_runtime BatchNormalization p) (\<lambda>q. Add_call id_runtime r3 q)))
       (\<lambda>out. Inr (Two out r2)))))"
proof -
  have a: "XceptionBlock_init [4, 5, 6] (Some ''conv'') 2 1 False True =
     Inr (XceptionBlock_of 4 5 6 (Some ''conv'') 2 1 False True)"
    by (simp add: XceptionBlock_init_three)
  from XceptionBlock_dataflow [OF a, of id_runtime "zeros [1, 8, 8, 3]"] a
  show ?thesis by simp
qed

section \<open>The backbone: construction\<close>

lemma XceptionBackbone_init_eq:
  "XceptionBackbone_init os =
     Inr \<lparr>entry_flow =
            [Basic (BasicBlock_init 32 3 2 1), Basic (BasicBlock_init 64 3 1 1),
             Xception (XceptionBlock_of 128 128 128 (Some ''conv'') 2 1 False False),
             Xception (XceptionBlock_of 256 256 256 (Some ''conv'') 2 1 False True),
             Xception (XceptionBlock_of 728 728 728 (Some ''conv'') (if os = 8 then 1 else 2) 1
                         False False)],
          middle_flow =
            replicate 16 (XceptionBlock_of 728 728 728 (Some ''sum'') 1 (if os = 8 then 2 else 1)
                            False False),
          exit_flow =
            [XceptionBlock_of 728 1024 1024 (Some ''conv'') 1 (if os = 8 then 2 else 1) False False,
             XceptionBlock_of 1536 1536 2048 None 1 (if os = 8 then 4 else 2) True False]\<rparr>"
  by (simp add: XceptionBackbone_init_def XceptionBlock_init_three replicate_3 map_err_const
      bind_def Let_def)

text \<open>
  The blocks created with constant arguments, in the backbone's stem, the pooling module
  and the decoder, hold only layers whose constructors accept their arguments.
\<close>

lemma constant_blocks_valid:
  "list_all layer_valid (bb_blocks (BasicBlock_init 32 3 2 1))"
  "list_all layer_valid (bb_blocks (BasicBlock_init 64 3 1 1))"
  "list_all layer_valid (bb_blocks (BasicBlock_init 256 1 1 1))"
  "list_all layer_valid (bb_blocks (BasicBlock_init 48 1 1 1))"
  "list_all layer_valid (applied_layers (SeparableConvBlock_init 256 3 1 1 True))"
  "list_all layer_valid (applied_layers (block_3x3_rate_S (ASPP_init os)))"
  "list_all layer_valid (applied_layers (block_3x3_rate_M (ASPP_init os)))"
  "list_all layer_valid (applied_layers (block_3x3_rate_L (ASPP_init os)))"
  by (simp_all add: BasicBlock_init_def SeparableConvBlock_init_def applied_layers_def
      ASPP_init_def List.map_filter_simps)

lemma XceptionBackbone_init_of: "XceptionBackbone_init os = Inr (XceptionBackbone_of os)"
  by (simp add: XceptionBackbone_init_eq XceptionBackbone_of_def)

text \<open>
  Claim C6 (topology of the backbone). For output stride 8 the fifth entry block has
  stride 1 and the dilation rates are 2, 2 and 4; for output stride 16 it has stride 2
  and the rates are 1, 1 and 2. In both, the middle flow is 16 copies of the block built
  from \<open>[728, 728, 728]\<close> with skip type \<^verbatim>\<open>"sum"\<close>, stride 1 and the first rate, and
  the exit flow is the block built from \<open>[728, 1024, 1024]\<close> with skip type
  \<^verbatim>\<open>"conv"\<close>, stride 1 and the second rate, then the block built from
  \<open>[1536, 1536, 2048]\<close> with no residual, stride 1, the third rate, rectification after
  the convolutions, and no side tap.
\<close>

theorem XceptionBackbone_topology:
  "XceptionBackbone_init 8 =
     bind (XceptionBlock_init [128, 128, 128] (Some ''conv'') 2 1 False False) (\<lambda>e2.
     bind (XceptionBlock_init [256, 256, 256] (Some ''conv'') 2 1 False True) (\<lambda>e3.
     bind (XceptionBlock_init [728, 728, 728] (Some ''conv'') 1 1 False False) (\<lambda>e4.
     bind (XceptionBlock_init [728, 728, 728] (Some ''sum'') 1 2 False False) (\<lambda>m.
     bind (XceptionBlock_init [728, 1024, 1024] (Some ''conv'') 1 2 False False) (\<lambda>x0.
     bind (XceptionBlock_init [1536, 1536, 2048] None 1 4 True False) (\<lambda>x1.
     Inr \<lparr>entry_flow = [Basic (BasicBlock_init 32 3 2 1), Basic (BasicBlock_init 64 3 1 1),
                         Xception e2, Xception e3, Xception e4],
          middle_flow = replicate 16 m,
          exit_flow = [x0, x1]\<rparr>))))))
   \<and> XceptionBackbone_init 16 =
     bind (XceptionBlock_init [128, 128, 128] (Some ''conv'') 2 1 False False) (\<lambda>e2.
     bind (XceptionBlock_init [256, 256, 256] (Some ''conv'') 2 1 False True) (\<lambda>e3.
     bind (XceptionBlock_init [728, 728, 728] (Some ''conv'') 2 1 False False) (\<lambda>e4.
     bind (XceptionBlock_init [728, 728, 728] (Some ''sum'') 1 1 False False) (\<lambda>m.
     bind (XceptionBlock_init [728, 1024, 1024] (Some ''conv'') 1 1 False False) (\<lambda>x0.
     bind (XceptionBlock_init [1536, 1536, 2048] None 1 2 True False) (\<lambda>x1.
     Inr \<lparr>entry_flow = [Basic (BasicBlock_init 32 3 2 1), Basic (BasicBlock_init 64 3 1 1),
                         Xception e2, Xception e3, Xception e4],
          middle_flow = replicate 16 m,
          exit_flow = [x0, x1]\<rparr>))))))
   \<and> \<not> isl (XceptionBackbone_init 8) \<and> \<not> isl (XceptionBackbone_init 16)
   \<and> bind (XceptionBlock_init [1536, 1536, 2048] None 1 4 True False)
        (\<lambda>x1. Inr (return_skip x1, skip_type x1)) = Inr (False, None)
   \<and> bind (XceptionBlock_init [1536, 1536, 2048] None 1 2 True False)
        (\<lambda>x1. Inr (return_skip x1, skip_type x1)) = Inr (False, None)"
proof -
  have a: "return_skip (XceptionBlock_of f0 f1 f2 st stride d act rs) = rs"
    "skip_type (XceptionBlock_of f0 f1 f2 st stride d act rs) = st"
    for f0 f1 f2 st stride d act rs
    by (simp_all add: XceptionBlock_of_def)
  show ?thesis
    by (simp add: XceptionBackbone_init_eq XceptionBlock_init_three bind_Inr a)
qed

section \<open>Output stride outside 8 and 16\<close>

lemma init_other_stride:
  "os \<noteq> 8 \<Longrightarrow> XceptionBackbone_init os = XceptionBackbone_init 16"
  "os \<noteq> 8 \<Longrightarrow> ASPP_init os = ASPP_init 16"
  "os \<noteq> 8 \<Longrightarrow> DeepLabV3pXc_init_body os n = DeepLabV3pXc_init_body 16 n"
  "\<not> isl (XceptionBackbone_init os)"
  by (simp_all add: XceptionBackbone_init_eq ASPP_init_def DeepLabV3pXc_init_body_def bind_Inr)

text \<open>
  Claim C3 (invalid output stride), as the program has it. No constructor checks the
  output stride: each compares it with 8 only. For every value other than 8, inside or
  outside the documented range, the backbone is constructed without error and is exactly
  the backbone of output stride 16, and the pooling module is exactly that of output
  stride 16. The body of the model's constructor adds no check of its own: it hands the
  value to these two, so it does for such a value exactly what it does for 16.
\<close>

theorem output_stride_defaults_to_16:
  "os \<noteq> 8 \<Longrightarrow>
     XceptionBackbone_init os = XceptionBackbone_init 16 \<and>
     \<not> isl (XceptionBackbone_init os) \<and>
     ASPP_init os = ASPP_init 16 \<and>
     DeepLabV3pXc_init_body os n = DeepLabV3pXc_init_body 16 n"
proof -
  assume h: "os \<noteq> 8"
  show ?thesis
    using init_other_stride(1,2) [OF h] init_other_stride(3) [OF h, of n]
      init_other_stride(4) [of os]
    by blast
qed

theorem output_stride_defaults_to_16_witness:
  "(32::int) \<noteq> 8 \<and>
     XceptionBackbone_init 32 = XceptionBackbone_init 16 \<and>
     \<not> isl (XceptionBackbone_init 32) \<and>
     ASPP_init 32 = ASPP_init 16 \<and>
     DeepLabV3pXc_init_body 32 1 = DeepLabV3pXc_init_body 16 1"
proof -
  have h: "(32::int) \<noteq> 8" by simp
  from output_stride_defaults_to_16 [OF h, of 1] h show ?thesis by blast
qed

text \<open>
  Output stride 4 is outside the documented range: the backbone is constructed, with the
  schedule of output stride 16, and the pooling module is that of output stride 16.
\<close>

theorem invalid_output_stride_accepted:
  "\<not> isl (XceptionBackbone_init 4) \<and>
   XceptionBackbone_init 4 = XceptionBackbone_init 16 \<and> ASPP_init 4 = ASPP_init 16"
proof -
  have h: "(4::int) \<noteq> 8" by simp
  show ?thesis
    using init_other_stride(1,2) [OF h] init_other_stride(4) [of 4]
    by blast
qed

section \<open>Shapes through the blocks\<close>

lemma conv_same:
  "0 < n \<Longrightarrow> 0 < k \<Longrightarrow> 0 < d \<Longrightarrow> 0 < s \<Longrightarrow>
   conv_output_length n k s Same d = Inr ((n + s - 1) div s)"
  apply (simp add: conv_output_length_def Let_def)
  apply (subgoal_tac "int n + int s - 1 = int (n + s - 1)")
   apply (simp only: zdiv_int[symmetric] nat_int)
   apply (simp add: div_greater_zero_iff)
  apply simp
  done

lemma conv_same_1: "0 < n \<Longrightarrow> 0 < k \<Longrightarrow> 0 < d \<Longrightarrow> conv_output_length n k 1 Same d = Inr n"
  by (simp add: conv_same)

lemma conv_valid_3_2: "0 < n \<Longrightarrow> conv_output_length (n + 2) 3 2 Valid 1 = Inr ((n + 1) div 2)"
  by (simp add: conv_output_length_def Let_def) linarith

lemma conv_valid_1_2: "0 < n \<Longrightarrow> conv_output_length n 1 2 Valid 1 = Inr ((n + 1) div 2)"
  by (simp add: conv_output_length_def Let_def) linarith


lemma conv_same_Suc:
  "0 < n \<Longrightarrow> 0 < k \<Longrightarrow> 0 < d \<Longrightarrow> conv_output_length n k (Suc 0) Same d = Inr n"
  using conv_same_1 by simp

lemma conv_valid_3_2_Suc:
  "0 < n \<Longrightarrow> conv_output_length (Suc (Suc n)) 3 2 Valid (Suc 0) = Inr (Suc n div 2)"
  using conv_valid_3_2 [of n] by simp

lemma conv_valid_1_2_Suc:
  "0 < n \<Longrightarrow> conv_output_length n (Suc 0) 2 Valid (Suc 0) = Inr (Suc n div 2)"
  using conv_valid_1_2 [of n] by simp

lemmas conv_lengths = conv_same conv_same_Suc conv_valid_3_2_Suc conv_valid_1_2_Suc

lemma BasicBlock_shape:
  assumes "tshape x = [n, h, w, c]" "0 < h" "0 < w" "0 < f" "0 < k" "0 < s"
  shows "\<exists>y. BasicBlock_call rt (BasicBlock_init f k s d) x = Inr y \<and>
             tshape y = [n, (h + s - 1) div s, (w + s - 1) div s, f]"
  using assms
  by (simp add: BasicBlock_call_def BasicBlock_init_def apply_layer_def bind_def conv_lengths)

lemma SeparableConvBlock_shape_1:
  assumes "tshape x = [n, h, w, c]" "0 < h" "0 < w" "0 < f" "0 < d"
  shows "\<exists>y. SeparableConvBlock_call rt (SeparableConvBlock_init f 3 1 d act) x = Inr y \<and>
             tshape y = [n, h, w, f]"
  using assms
  by (simp add: SeparableConvBlock_call_def SeparableConvBlock_init_def apply_layer_def
      bind_def conv_lengths)

lemma SeparableConvBlock_shape_2:
  assumes "tshape x = [n, h, w, c]" "0 < h" "0 < w" "0 < f"
  shows "\<exists>y. SeparableConvBlock_call rt (SeparableConvBlock_init f 3 2 1 act) x = Inr y \<and>
             tshape y = [n, (h + 1) div 2, (w + 1) div 2, f]"
  using assms
  by (simp add: SeparableConvBlock_call_def SeparableConvBlock_init_def apply_layer_def
      bind_def conv_lengths custom_pad_kernel3)

lemma ConvBlock_shape_1:
  assumes "tshape x = [n, h, w, c]" "0 < h" "0 < w" "0 < f"
  shows "\<exists>y. ConvBlock_call rt (ConvBlock_init f 1 1 1) x = Inr y \<and> tshape y = [n, h, w, f]"
  using assms
  by (simp add: ConvBlock_call_def ConvBlock_init_def apply_layer_def bind_def conv_lengths)

lemma ConvBlock_shape_2:
  assumes "tshape x = [n, h, w, c]" "0 < h" "0 < w" "0 < f"
  shows "\<exists>y. ConvBlock_call rt (ConvBlock_init f 1 2 1) x = Inr y \<and>
             tshape y = [n, (h + 1) div 2, (w + 1) div 2, f]"
  using assms
  by (simp add: ConvBlock_call_def ConvBlock_init_def apply_layer_def bind_def
      conv_lengths custom_pad_kernel1)

lemma elemwise_same: "elemwise_op_output_shape s s = Inr s"
  by (induction s) (simp_all add: bind_def)

lemma Add_same:
  assumes "tshape a = n # s" "tshape b = n # s"
  shows "\<exists>y. Add_call rt a b = Inr y \<and> tshape y = n # s"
  using assms by (simp add: Add_call_def elemwise_same bind_def)


lemma XceptionBlock_conv_1:
  assumes "tshape x = [n, h, w, c]" "0 < h" "0 < w" "0 < f0" "0 < f1" "0 < f2" "0 < d"
  shows "\<exists>y t. XceptionBlock_call rt (XceptionBlock_of f0 f1 f2 (Some ''conv'') 1 d act rs) x =
                 Inr (if rs then Two y t else One y) \<and>
               tshape y = [n, h, w, f2] \<and> tshape t = [n, h, w, f1]"
proof -
  obtain r1 where r1: "SeparableConvBlock_call rt (SeparableConvBlock_init f0 3 1 d act) x = Inr r1"
    "tshape r1 = [n, h, w, f0]"
    using SeparableConvBlock_shape_1 [OF assms(1,2,3,4,7)] by blast
  obtain r2 where r2: "SeparableConvBlock_call rt (SeparableConvBlock_init f1 3 1 d act) r1 = Inr r2"
    "tshape r2 = [n, h, w, f1]"
    using SeparableConvBlock_shape_1 [OF r1(2) assms(2,3,5,7)] by blast
  obtain r3 where r3: "SeparableConvBlock_call rt (SeparableConvBlock_init f2 3 1 d act) r2 = Inr r3"
    "tshape r3 = [n, h, w, f2]"
    using SeparableConvBlock_shape_1 [OF r2(2) assms(2,3,6,7)] by blast
  obtain p where p: "ConvBlock_call rt (ConvBlock_init f2 1 1 1) x = Inr p" "tshape p = [n, h, w, f2]"
    using ConvBlock_shape_1 [OF assms(1,2,3,6)] by blast
  obtain q where q: "apply_layer rt BatchNormalization p = Inr q" "tshape q = [n, h, w, f2]"
    using p(2) by (simp add: apply_layer_def bind_Inr)
  obtain y where y: "Add_call rt r3 q = Inr y" "tshape y = [n, h, w, f2]"
    using Add_same [OF r3(2) q(2)] by blast
  show ?thesis
    by (rule exI [of _ y], rule exI [of _ r2])
      (simp add: XceptionBlock_call_of r1 r2 r3 p q y bind_Inr del: One_nat_def)
qed


lemma XceptionBlock_conv_2:
  assumes "tshape x = [n, h, w, c]" "0 < h" "0 < w" "0 < f0" "0 < f1" "0 < f2"
  shows "\<exists>y t. XceptionBlock_call rt (XceptionBlock_of f0 f1 f2 (Some ''conv'') 2 1 act rs) x =
                 Inr (if rs then Two y t else One y) \<and>
               tshape y = [n, (h + 1) div 2, (w + 1) div 2, f2] \<and> tshape t = [n, h, w, f1]"
proof -
  have d: "0 < (1::nat)" by simp
  obtain r1 where r1: "SeparableConvBlock_call rt (SeparableConvBlock_init f0 3 1 1 act) x = Inr r1"
    "tshape r1 = [n, h, w, f0]"
    using SeparableConvBlock_shape_1 [OF assms(1,2,3,4) d] by blast
  obtain r2 where r2: "SeparableConvBlock_call rt (SeparableConvBlock_init f1 3 1 1 act) r1 = Inr r2"
    "tshape r2 = [n, h, w, f1]"
    using SeparableConvBlock_shape_1 [OF r1(2) assms(2,3,5) d] by blast
  obtain r3 where r3: "SeparableConvBlock_call rt (SeparableConvBlock_init f2 3 2 1 act) r2 = Inr r3"
    "tshape r3 = [n, (h + 1) div 2, (w + 1) div 2, f2]"
    using SeparableConvBlock_shape_2 [OF r2(2) assms(2,3,6)] by blast
  obtain p where p: "ConvBlock_call rt (ConvBlock_init f2 1 2 1) x = Inr p"
    "tshape p = [n, (h + 1) div 2, (w + 1) div 2, f2]"
    using ConvBlock_shape_2 [OF assms(1,2,3,6)] by blast
  obtain q where q: "apply_layer rt BatchNormalization p = Inr q"
    "tshape q = [n, (h + 1) div 2, (w + 1) div 2, f2]"
    using p(2) by (simp add: apply_layer_def bind_Inr)
  obtain y where y: "Add_call rt r3 q = Inr y" "tshape y = [n, (h + 1) div 2, (w + 1) div 2, f2]"
    using Add_same [OF r3(2) q(2)] by blast
  show ?thesis
    by (rule exI [of _ y], rule exI [of _ r2])
      (simp add: XceptionBlock_call_of r1 r2 r3 p q y bind_Inr del: One_nat_def)
qed

lemma XceptionBlock_sum_1:
  assumes "tshape x = [n, h, w, f2]" "0 < h" "0 < w" "0 < f0" "0 < f1" "0 < f2" "0 < d"
  shows "\<exists>y. XceptionBlock_call rt (XceptionBlock_of f0 f1 f2 (Some ''sum'') 1 d act False) x =
                 Inr (One y) \<and> tshape y = [n, h, w, f2]"
proof -
  obtain r1 where r1: "SeparableConvBlock_call rt (SeparableConvBlock_init f0 3 1 d act) x = Inr r1"
    "tshape r1 = [n, h, w, f0]"
    using SeparableConvBlock_shape_1 [OF assms(1,2,3,4,7)] by blast
  obtain r2 where r2: "SeparableConvBlock_call rt (SeparableConvBlock_init f1 3 1 d act) r1 = Inr r2"
    "tshape r2 = [n, h, w, f1]"
    using SeparableConvBlock_shape_1 [OF r1(2) assms(2,3,5,7)] by blast
  obtain r3 where r3: "SeparableConvBlock_call rt (SeparableConvBlock_init f2 3 1 d act) r2 = Inr r3"
    "tshape r3 = [n, h, w, f2]"
    using SeparableConvBlock_shape_1 [OF r2(2) assms(2,3,6,7)] by blast
  obtain y where y: "Add_call rt r3 x = Inr y" "tshape y = [n, h, w, f2]"
    using Add_same [OF r3(2) assms(1)] by blast
  show ?thesis
    by (rule exI [of _ y])
      (simp add: XceptionBlock_call_of r1 r2 r3 y bind_Inr del: One_nat_def)
qed

lemma XceptionBlock_none_1:
  assumes "tshape x = [n, h, w, c]" "0 < h" "0 < w" "0 < f0" "0 < f1" "0 < f2" "0 < d"
  shows "\<exists>y. XceptionBlock_call rt (XceptionBlock_of f0 f1 f2 None 1 d act False) x =
                 Inr (One y) \<and> tshape y = [n, h, w, f2]"
proof -
  obtain r1 where r1: "SeparableConvBlock_call rt (SeparableConvBlock_init f0 3 1 d act) x = Inr r1"
    "tshape r1 = [n, h, w, f0]"
    using SeparableConvBlock_shape_1 [OF assms(1,2,3,4,7)] by blast
  obtain r2 where r2: "SeparableConvBlock_call rt (SeparableConvBlock_init f1 3 1 d act) r1 = Inr r2"
    "tshape r2 = [n, h, w, f1]"
    using SeparableConvBlock_shape_1 [OF r1(2) assms(2,3,5,7)] by blast
  obtain r3 where r3: "SeparableConvBlock_call rt (SeparableConvBlock_init f2 3 1 d act) r2 = Inr r3"
    "tshape r3 = [n, h, w, f2]"
    using SeparableConvBlock_shape_1 [OF r2(2) assms(2,3,6,7)] by blast
  show ?thesis
    by (rule exI [of _ r3])
      (simp add: XceptionBlock_call_of r1 r2 r3 bind_Inr del: One_nat_def)
qed

lemma run_blocks_middle:
  assumes "0 < h" "0 < w" "0 < d"
  shows "tshape x = [n, h, w, 728] \<Longrightarrow>
    \<exists>y. run_blocks rt (replicate k (XceptionBlock_of 728 728 728 (Some ''sum'') 1 d False False)) x
           = Inr y \<and> tshape y = [n, h, w, 728]"
proof (induction k arbitrary: x)
  case 0
  then show ?case by simp
next
  case (Suc k)
  obtain y where y: "XceptionBlock_call rt (XceptionBlock_of 728 728 728 (Some ''sum'') 1 d False False) x
      = Inr (One y)" "tshape y = [n, h, w, 728]"
    using XceptionBlock_sum_1 [OF Suc.prems assms(1,2) _ _ _ assms(3), of 728 728 rt False]
    by auto
  from Suc.IH [OF y(2)] show ?case
    by (simp add: y bind_Inr del: One_nat_def)
qed


lemma XceptionBackbone_call_shape:
  assumes x: "tshape x = [n, H, W, c]" and H: "0 < H" and W: "0 < W"
  shows "\<exists>y s. bind (XceptionBackbone_init os) (\<lambda>bb. XceptionBackbone_call rt bb x) = Inr (y, s) \<and>
     tshape s = [n, (((H + 1) div 2) + 1) div 2, (((W + 1) div 2) + 1) div 2, 256] \<and>
     tshape y = [n, (if os = 8 then ((((H + 1) div 2) + 1) div 2 + 1) div 2
                     else (((((H + 1) div 2) + 1) div 2 + 1) div 2 + 1) div 2),
                    (if os = 8 then ((((W + 1) div 2) + 1) div 2 + 1) div 2
                     else (((((W + 1) div 2) + 1) div 2 + 1) div 2 + 1) div 2), 2048] \<and>
     0 < tshape y ! 1 \<and> 0 < tshape y ! 2"
proof -
  define h1 where "h1 = (H + 1) div 2"
  define w1 where "w1 = (W + 1) div 2"
  define h2 where "h2 = (h1 + 1) div 2"
  define w2 where "w2 = (w1 + 1) div 2"
  define h3 where "h3 = (h2 + 1) div 2"
  define w3 where "w3 = (w2 + 1) div 2"
  define h4 where "h4 = (if os = 8 then h3 else (h3 + 1) div 2)"
  define w4 where "w4 = (if os = 8 then w3 else (w3 + 1) div 2)"
  define dm :: nat where "dm = (if os = 8 then 2 else 1)"
  define dx :: nat where "dx = (if os = 8 then 4 else 2)"
  have pos: "0 < h1" "0 < w1" "0 < h2" "0 < w2" "0 < h3" "0 < w3" "0 < h4" "0 < w4" "0 < dm" "0 < dx"
    using H W by (simp_all add: h1_def w1_def h2_def w2_def h3_def w3_def h4_def w4_def dm_def dx_def)
  obtain y0 where y0: "BasicBlock_call rt (BasicBlock_init 32 3 2 1) x = Inr y0"
    "tshape y0 = [n, h1, w1, 32]"
    using BasicBlock_shape [OF x H W, of 32 3 2 rt 1] by (auto simp: h1_def w1_def)
  obtain y1 where y1: "BasicBlock_call rt (BasicBlock_init 64 3 1 1) y0 = Inr y1"
    "tshape y1 = [n, h1, w1, 64]"
    using BasicBlock_shape [OF y0(2) pos(1,2), of 64 3 1 rt 1] by auto
  obtain y2 where y2:
    "XceptionBlock_call rt (XceptionBlock_of 128 128 128 (Some ''conv'') 2 1 False False) y1 = Inr (One y2)"
    "tshape y2 = [n, h2, w2, 128]"
    using XceptionBlock_conv_2 [OF y1(2) pos(1,2), of 128 128 128 rt False False]
    by (auto simp: h2_def w2_def)
  obtain y3 s where y3:
    "XceptionBlock_call rt (XceptionBlock_of 256 256 256 (Some ''conv'') 2 1 False True) y2 = Inr (Two y3 s)"
    "tshape y3 = [n, h3, w3, 256]" "tshape s = [n, h2, w2, 256]"
    using XceptionBlock_conv_2 [OF y2(2) pos(3,4), of 256 256 256 rt False True]
    by (auto simp: h3_def w3_def)
  obtain y4 where y4:
    "XceptionBlock_call rt (XceptionBlock_of 728 728 728 (Some ''conv'') (if os = 8 then 1 else 2) 1
        False False) y3 = Inr (One y4)"
    "tshape y4 = [n, h4, w4, 728]"
  proof (cases "os = 8")
    case True
    with XceptionBlock_conv_1 [OF y3(2) pos(5,6), of 728 728 728 1 rt False False] that
    show ?thesis by (auto simp: h4_def w4_def)
  next
    case False
    with XceptionBlock_conv_2 [OF y3(2) pos(5,6), of 728 728 728 rt False False] that
    show ?thesis by (auto simp: h4_def w4_def)
  qed
  obtain y5 where y5:
    "run_blocks rt (replicate 16 (XceptionBlock_of 728 728 728 (Some ''sum'') 1 dm False False)) y4 = Inr y5"
    "tshape y5 = [n, h4, w4, 728]"
    using run_blocks_middle [OF pos(7,8,9) y4(2), of rt 16] by blast
  obtain y6 where y6:
    "XceptionBlock_call rt (XceptionBlock_of 728 1024 1024 (Some ''conv'') 1 dm False False) y5 = Inr (One y6)"
    "tshape y6 = [n, h4, w4, 1024]"
    using XceptionBlock_conv_1 [OF y5(2) pos(7,8) _ _ _ pos(9), of 728 1024 1024 rt False False]
    by auto
  obtain y7 where y7:
    "XceptionBlock_call rt (XceptionBlock_of 1536 1536 2048 None 1 dx True False) y6 = Inr (One y7)"
    "tshape y7 = [n, h4, w4, 2048]"
    using XceptionBlock_none_1 [OF y6(2) pos(7,8) _ _ _ pos(10), of 1536 1536 2048 rt True]
    by auto
  have "bind (XceptionBackbone_init os) (\<lambda>bb. XceptionBackbone_call rt bb x) = Inr (y7, s)"
    using y0(1) y1(1) y2(1) y3(1) y4(1) y5(1) y6(1) y7(1)
    by (simp add: XceptionBackbone_init_eq XceptionBackbone_call_def bind_Inr enumerate_simps
        block_call_def dm_def dx_def del: One_nat_def)
  then show ?thesis
    using y7(2) y3(3) pos
    by (auto simp: h1_def w1_def h2_def w2_def h3_def w3_def h4_def w4_def)
qed

lemma quarter: "4 dvd (h::nat) \<Longrightarrow> ((h + 1) div 2 + 1) div 2 = h div 4"
  by presburger

text \<open>
  Claim C7 (the skip feature map). For an input of height \<open>H\<close> and width \<open>W\<close>, both
  positive and divisible by 4, the backbone (of any output stride, under any runtime)
  returns, and the skip feature map it returns has shape \<open>(batch, H/4, W/4, 256)\<close>.
\<close>

theorem skip_feature_map_shape:
  "tshape x = [n, H, W, c] \<Longrightarrow> 0 < H \<Longrightarrow> 0 < W \<Longrightarrow> 4 dvd H \<Longrightarrow> 4 dvd W \<Longrightarrow>
   map_sum id (tshape \<circ> snd)
     (bind (XceptionBackbone_init os) (\<lambda>bb. XceptionBackbone_call rt bb x)) =
   Inr [n, H div 4, W div 4, 256]"
proof -
  assume x: "tshape x = [n, H, W, c]" and H: "0 < H" and W: "0 < W"
    and dH: "4 dvd H" and dW: "4 dvd W"
  obtain y s where r: "bind (XceptionBackbone_init os) (\<lambda>bb. XceptionBackbone_call rt bb x) = Inr (y, s)"
    "tshape s = [n, ((H + 1) div 2 + 1) div 2, ((W + 1) div 2 + 1) div 2, 256]"
    using XceptionBackbone_call_shape [OF x H W, of os rt] by blast
  have s: "tshape s = [n, H div 4, W div 4, 256]"
    using r(2) unfolding quarter [OF dH] quarter [OF dW] .
  show ?thesis
    by (simp add: r(1) s)
qed

theorem skip_feature_map_shape_witness:
  "tshape (zeros [1, 256, 256, 3]) = [1, 256, 256, 3] \<and> (0::nat) < 256 \<and> (4::nat) dvd 256 \<and>
   map_sum id (tshape \<circ> snd)
     (bind (XceptionBackbone_init 8) (\<lambda>bb. XceptionBackbone_call id_runtime bb (zeros [1, 256, 256, 3]))) =
   Inr [1, 64, 64, 256]"
proof -
  have a: "tshape (zeros [1, 256, 256, 3]) = [1, 256, 256, 3]" by (simp add: zeros_def)
  have b: "(0::nat) < 256" by simp
  have c: "(4::nat) dvd 256" by simp
  have d: "(256::nat) div 4 = 64" by simp
  from skip_feature_map_shape [OF a b b c c, of 8 id_runtime] a b c d show ?thesis
    by simp
qed

section \<open>Atrous spatial pyramid pooling: properties\<close>

lemma image_resize_shape:
  assumes "tshape x = [n, h, w, c]" "0 < h" "0 < w" "0 < h'" "0 < w'"
  shows "\<exists>y. image_resize rt x [h', w'] = Inr y \<and> tshape y = [n, h', w', c]"
  using assms by (simp add: image_resize_def)

lemma pooling_shape:
  assumes "tshape x = [n, h, w, c]"
  shows "\<exists>y. run_pooling rt (blocks_pooling (ASPP_init os)) x = Inr y \<and> tshape y = [n, 1, 1, 256]"
proof -
  obtain a where a: "apply_layer rt GlobalAveragePooling2D x = Inr a" "tshape a = [n, c]"
    using assms by (simp add: apply_layer_def bind_Inr)
  obtain b where b: "apply_layer rt Lambda_newaxis a = Inr b" "tshape b = [n, 1, 1, c]"
    using a(2) by (simp add: apply_layer_def bind_Inr)
  obtain y where y: "BasicBlock_call rt (BasicBlock_init 256 1 1 1) b = Inr y"
    "tshape y = [n, 1, 1, 256]"
    using BasicBlock_shape [OF b(2), of 256 1 1 rt 1] by auto
  show ?thesis
    by (simp add: ASPP_init_def a b y bind_Inr del: One_nat_def)
qed

lemma ASPP_shapes:
  assumes x: "tshape x = [n, h, w, c]" and h: "0 < h" and w: "0 < w"
  shows "\<exists>x1 x2 x3 x4 p x5 cat y.
           BasicBlock_call rt (block_1x1 (ASPP_init os)) x = Inr x1 \<and>
           tshape x1 = [n, h, w, 256] \<and>
           SeparableConvBlock_call rt (block_3x3_rate_S (ASPP_init os)) x = Inr x2 \<and>
           tshape x2 = [n, h, w, 256] \<and>
           SeparableConvBlock_call rt (block_3x3_rate_M (ASPP_init os)) x = Inr x3 \<and>
           tshape x3 = [n, h, w, 256] \<and>
           SeparableConvBlock_call rt (block_3x3_rate_L (ASPP_init os)) x = Inr x4 \<and>
           tshape x4 = [n, h, w, 256] \<and>
           run_pooling rt (blocks_pooling (ASPP_init os)) x = Inr p \<and>
           tshape p = [n, 1, 1, 256] \<and>
           image_resize rt p (shape_1_3 x) = Inr x5 \<and>
           tshape x5 = [n, h, w, 256] \<and>
           Concatenate_call rt [x1, x2, x3, x4, x5] = Inr cat \<and>
           tshape cat = [n, h, w, 1280] \<and>
           BasicBlock_call rt (concat_1x1 (ASPP_init os)) cat = Inr y \<and>
           ASPP_call rt (ASPP_init os) x = Inr y \<and>
           tshape y = [n, h, w, 256]"
proof -
  define d1 :: nat where "d1 = (if os = 8 then 12 else 6)"
  define d2 :: nat where "d2 = (if os = 8 then 24 else 12)"
  define d3 :: nat where "d3 = (if os = 8 then 36 else 18)"
  have pos: "0 < d1" "0 < d2" "0 < d3" by (simp_all add: d1_def d2_def d3_def)
  have init: "block_1x1 (ASPP_init os) = BasicBlock_init 256 1 1 1"
    "block_3x3_rate_S (ASPP_init os) = SeparableConvBlock_init 256 3 1 d1 True"
    "block_3x3_rate_M (ASPP_init os) = SeparableConvBlock_init 256 3 1 d2 True"
    "block_3x3_rate_L (ASPP_init os) = SeparableConvBlock_init 256 3 1 d3 True"
    "concat_1x1 (ASPP_init os) = BasicBlock_init 256 1 1 1"
    by (simp_all add: ASPP_init_def d1_def d2_def d3_def)
  obtain x1 where x1: "BasicBlock_call rt (block_1x1 (ASPP_init os)) x = Inr x1"
    "tshape x1 = [n, h, w, 256]"
    using BasicBlock_shape [OF x h w, of 256 1 1 rt 1] by (auto simp: init)
  obtain x2 where x2: "SeparableConvBlock_call rt (block_3x3_rate_S (ASPP_init os)) x = Inr x2"
    "tshape x2 = [n, h, w, 256]"
    using SeparableConvBlock_shape_1 [OF x h w _ pos(1), of 256 rt True] by (auto simp: init)
  obtain x3 where x3: "SeparableConvBlock_call rt (block_3x3_rate_M (ASPP_init os)) x = Inr x3"
    "tshape x3 = [n, h, w, 256]"
    using SeparableConvBlock_shape_1 [OF x h w _ pos(2), of 256 rt True] by (auto simp: init)
  obtain x4 where x4: "SeparableConvBlock_call rt (block_3x3_rate_L (ASPP_init os)) x = Inr x4"
    "tshape x4 = [n, h, w, 256]"
    using SeparableConvBlock_shape_1 [OF x h w _ pos(3), of 256 rt True] by (auto simp: init)
  obtain p where p: "run_pooling rt (blocks_pooling (ASPP_init os)) x = Inr p"
    "tshape p = [n, 1, 1, 256]"
    using pooling_shape [OF x] by blast
  have one: "0 < (1::nat)" by simp
  have f: "shape_1_3 x = [h, w]" by (simp add: shape_1_3_def x)
  obtain x5 where x5: "image_resize rt p (shape_1_3 x) = Inr x5" "tshape x5 = [n, h, w, 256]"
    using image_resize_shape [OF p(2) one one h w] by (auto simp: f)
  obtain cat where cat: "Concatenate_call rt [x1, x2, x3, x4, x5] = Inr cat"
    "tshape cat = [n, h, w, 1280]"
    by (simp add: Concatenate_call_def x1 x2 x3 x4 x5)
  obtain y where y: "BasicBlock_call rt (concat_1x1 (ASPP_init os)) cat = Inr y"
    "tshape y = [n, h, w, 256]"
    using BasicBlock_shape [OF cat(2) h w, of 256 1 1 rt 1] by (auto simp: init)
  have call: "ASPP_call rt (ASPP_init os) x = Inr y"
    by (simp add: ASPP_call_def x1(1) x2(1) x3(1) x4(1) p(1) x5(1) cat(1) y(1) bind_Inr)
  show ?thesis
    using x1 x2 x3 x4 p x5 cat y call by blast
qed

text \<open>
  Claim C8 (channel counts of the pooling module). On a feature map of positive height
  and width, under any runtime and for any output stride, a call of the module computes
  its five branches from the input, each with the input's height and width and 256
  channels (the global branch is pooled to 1 by 1 and resized to the height and width
  read from the input); it concatenates these five into 1280 channels, and its result is
  the 1 by 1 fusion of that concatenation, with 256 channels. The three dilated branches
  are separable blocks of kernel 3, stride 1, rectification after the convolutions, with
  rates 12, 24, 36 for output stride 8 and 6, 12, 18 for output stride 16.
\<close>

theorem ASPP_channel_counts:
  "tshape x = [n, h, w, c] \<Longrightarrow> 0 < h \<Longrightarrow> 0 < w \<Longrightarrow>
   (\<exists>x1 x2 x3 x4 p x5 cat y.
        BasicBlock_call rt (block_1x1 (ASPP_init os)) x = Inr x1 \<and>
        tshape x1 = [n, h, w, 256] \<and>
        SeparableConvBlock_call rt (block_3x3_rate_S (ASPP_init os)) x = Inr x2 \<and>
        tshape x2 = [n, h, w, 256] \<and>
        SeparableConvBlock_call rt (block_3x3_rate_M (ASPP_init os)) x = Inr x3 \<and>
        tshape x3 = [n, h, w, 256] \<and>
        SeparableConvBlock_call rt (block_3x3_rate_L (ASPP_init os)) x = Inr x4 \<and>
        tshape x4 = [n, h, w, 256] \<and>
        run_pooling rt (blocks_pooling (ASPP_init os)) x = Inr p \<and>
        tshape p = [n, 1, 1, 256] \<and>
        image_resize rt p (shape_1_3 x) = Inr x5 \<and>
        tshape x5 = [n, h, w, 256] \<and>
        Concatenate_call rt [x1, x2, x3, x4, x5] = Inr cat \<and>
        tshape cat = [n, h, w, 1280] \<and>
        BasicBlock_call rt (concat_1x1 (ASPP_init os)) cat = Inr y \<and>
        ASPP_call rt (ASPP_init os) x = Inr y \<and>
        tshape y = [n, h, w, 256]) \<and>
   shape_1_3 x = [h, w] \<and>
   [block_3x3_rate_S (ASPP_init 8), block_3x3_rate_M (ASPP_init 8), block_3x3_rate_L (ASPP_init 8)] =
     map (\<lambda>d. SeparableConvBlock_init 256 3 1 d True) [12, 24, 36] \<and>
   [block_3x3_rate_S (ASPP_init 16), block_3x3_rate_M (ASPP_init 16), block_3x3_rate_L (ASPP_init 16)] =
     map (\<lambda>d. SeparableConvBlock_init 256 3 1 d True) [6, 12, 18]"
proof -
  assume x: "tshape x = [n, h, w, c]" and h: "0 < h" and w: "0 < w"
  have a: "shape_1_3 x = [h, w]" by (simp add: shape_1_3_def x)
  have b: "[block_3x3_rate_S (ASPP_init 8), block_3x3_rate_M (ASPP_init 8),
            block_3x3_rate_L (ASPP_init 8)] =
           map (\<lambda>d. SeparableConvBlock_init 256 3 1 d True) [12, 24, 36]"
    by (simp add: ASPP_init_def)
  have c: "[block_3x3_rate_S (ASPP_init 16), block_3x3_rate_M (ASPP_init 16),
            block_3x3_rate_L (ASPP_init 16)] =
           map (\<lambda>d. SeparableConvBlock_init 256 3 1 d True) [6, 12, 18]"
    by (simp add: ASPP_init_def)
  from ASPP_shapes [OF x h w, of rt os] a b c show ?thesis by blast
qed

theorem ASPP_channel_counts_witness:
  "tshape (zeros [1, 32, 32, 2048]) = [1, 32, 32, 2048] \<and> (0::nat) < 32 \<and>
   (\<exists>x1 x2 x3 x4 p x5 cat y.
        BasicBlock_call id_runtime (block_1x1 (ASPP_init 8)) (zeros [1, 32, 32, 2048]) = Inr x1 \<and>
        tshape x1 = [1, 32, 32, 256] \<and>
        SeparableConvBlock_call id_runtime (block_3x3_rate_S (ASPP_init 8)) (zeros [1, 32, 32, 2048]) = Inr x2 \<and>
        tshape x2 = [1, 32, 32, 256] \<and>
        SeparableConvBlock_call id_runtime (block_3x3_rate_M (ASPP_init 8)) (zeros [1, 32, 32, 2048]) = Inr x3 \<and>
        tshape x3 = [1, 32, 32, 256] \<and>
        SeparableConvBlock_call id_runtime (block_3x3_rate_L (ASPP_init 8)) (zeros [1, 32, 32, 2048]) = Inr x4 \<and>
        tshape x4 = [1, 32, 32, 256] \<and>
        run_pooling id_runtime (blocks_pooling (ASPP_init 8)) (zeros [1, 32, 32, 2048]) = Inr p \<and>
        tshape p = [1, 1, 1, 256] \<and>
        image_resize id_runtime p (shape_1_3 (zeros [1, 32, 32, 2048])) = Inr x5 \<and>
        tshape x5 = [1, 32, 32, 256] \<and>
        Concatenate_call id_runtime [x1, x2, x3, x4, x5] = Inr cat \<and>
        tshape cat = [1, 32, 32, 1280] \<and>
        BasicBlock_call id_runtime (concat_1x1 (ASPP_init 8)) cat = Inr y \<and>
        ASPP_call id_runtime (ASPP_init 8) (zeros [1, 32, 32, 2048]) = Inr y \<and>
        tshape y = [1, 32, 32, 256])"
proof -
  have a: "tshape (zeros [1, 32, 32, 2048]) = [1, 32, 32, 2048]" by (simp add: zeros_def)
  have b: "(0::nat) < 32" by simp
  from ASPP_channel_counts [OF a b b, of id_runtime 8] a b show ?thesis by blast
qed

section \<open>The forward pass: properties\<close>

lemma sigmoid_unit: "v \<noteq> NaN \<Longrightarrow> in_unit (sigmoid v)"
proof (cases v)
  case (Fin r)
  have e: "0 < exp (- r)" by simp
  then have d: "0 < 1 + exp (- r)" by linarith
  have "1 / (1 + exp (- r)) \<le> 1"
    using e d by (simp add: divide_le_eq)
  moreover have "0 \<le> 1 / (1 + exp (- r))"
    using d by simp
  ultimately show ?thesis by (simp add: Fin)
qed simp_all

lemma apply_layer_data:
  "apply_layer rt l x = Inr y \<Longrightarrow> tdata y = layer_data rt l (tdata x)"
  by (auto simp: apply_layer_def bind_def split: sum.splits)

lemma image_resize_data:
  "image_resize rt x sz = Inr y \<Longrightarrow> tdata y = rt_resize rt sz (tdata x)"
  by (auto simp: image_resize_def split: list.splits if_splits)

lemma sigmoid_layer_values:
  "\<exists>y. apply_layer rt (Activation ''sigmoid'') g = Inr y \<and> tshape y = tshape g \<and>
       (\<forall>i. tdata y i = sigmoid (tdata g i))"
  by (simp add: apply_layer_def bind_Inr layer_data_def)

lemma DeepLabV3Decoder_init_of:
  "0 < nc \<Longrightarrow> DeepLabV3Decoder_init nc = Inr (DeepLabV3Decoder_of nc)"
  by (simp add: DeepLabV3Decoder_init_def DeepLabV3Decoder_of_def constructed_def)

lemma Decoder_chain:
  assumes x: "tshape x = [n, h, w, 256]" and hw: "0 < h" "0 < w"
    and sk: "tshape skip = [n, hs, ws, cs]" and hws: "0 < hs" "0 < ws"
    and HW: "0 < H" "0 < W" and nc: "0 < nc"
  shows "\<exists>a b c d e z g y.
           image_resize rt x (shape_1_3 skip) = Inr a \<and>
           BasicBlock_call rt (skip_block (DeepLabV3Decoder_of nc)) skip = Inr b \<and>
           Concatenate_call rt [a, b] = Inr c \<and>
           SeparableConvBlock_call rt (sepconv1 (DeepLabV3Decoder_of nc)) c = Inr d \<and>
           SeparableConvBlock_call rt (sepconv2 (DeepLabV3Decoder_of nc)) d = Inr e \<and>
           apply_layer rt (conv (DeepLabV3Decoder_of nc)) e = Inr z \<and>
           tshape z = [n, hs, ws, nc] \<and>
           image_resize rt z [H, W] = Inr g \<and>
           apply_layer rt (Activation ''sigmoid'') g = Inr y \<and>
           DeepLabV3Decoder_call rt (DeepLabV3Decoder_of nc) x skip [H, W] = Inr y \<and>
           tshape y = [n, H, W, nc] \<and>
           (\<forall>i. tdata y i = sigmoid (tdata g i))"
proof -
  have one: "0 < (1::nat)" by simp
  have ss: "shape_1_3 skip = [hs, ws]" by (simp add: shape_1_3_def sk)
  have dec: "skip_block (DeepLabV3Decoder_of nc) = BasicBlock_init 48 1 1 1"
    "sepconv1 (DeepLabV3Decoder_of nc) = SeparableConvBlock_init 256 3 1 1 True"
    "sepconv2 (DeepLabV3Decoder_of nc) = SeparableConvBlock_init 256 3 1 1 True"
    "conv (DeepLabV3Decoder_of nc) = Conv2D nc 1 1 Same True 1"
    "sigmoid_layer (DeepLabV3Decoder_of nc) = Activation ''sigmoid''"
    by (simp_all add: DeepLabV3Decoder_of_def)
  obtain a where a: "image_resize rt x (shape_1_3 skip) = Inr a" "tshape a = [n, hs, ws, 256]"
    using image_resize_shape [OF x hw hws] by (auto simp: ss)
  obtain b where b: "BasicBlock_call rt (skip_block (DeepLabV3Decoder_of nc)) skip = Inr b"
    "tshape b = [n, hs, ws, 48]"
    using BasicBlock_shape [OF sk hws, of 48 1 1 rt 1] by (auto simp: dec)
  obtain c where c: "Concatenate_call rt [a, b] = Inr c" "tshape c = [n, hs, ws, 304]"
    by (simp add: Concatenate_call_def a b)
  obtain d where d: "SeparableConvBlock_call rt (sepconv1 (DeepLabV3Decoder_of nc)) c = Inr d"
    "tshape d = [n, hs, ws, 256]"
    using SeparableConvBlock_shape_1 [OF c(2) hws _ one, of 256 rt True] by (auto simp: dec)
  obtain e where e: "SeparableConvBlock_call rt (sepconv2 (DeepLabV3Decoder_of nc)) d = Inr e"
    "tshape e = [n, hs, ws, 256]"
    using SeparableConvBlock_shape_1 [OF d(2) hws _ one, of 256 rt True] by (auto simp: dec)
  obtain z where z: "apply_layer rt (conv (DeepLabV3Decoder_of nc)) e = Inr z"
    "tshape z = [n, hs, ws, nc]"
    using e(2) hws nc by (simp add: dec apply_layer_def bind_Inr conv_lengths)
  obtain g where g: "image_resize rt z [H, W] = Inr g" "tshape g = [n, H, W, nc]"
    using image_resize_shape [OF z(2) hws HW] by blast
  obtain y where y: "apply_layer rt (Activation ''sigmoid'') g = Inr y" "tshape y = tshape g"
    "\<forall>i. tdata y i = sigmoid (tdata g i)"
    using sigmoid_layer_values [of rt g] by blast
  have call: "DeepLabV3Decoder_call rt (DeepLabV3Decoder_of nc) x skip [H, W] = Inr y"
    using y(1) by (simp add: DeepLabV3Decoder_call_def a(1) b(1) c(1) d(1) e(1) z(1) g(1) bind_Inr)
      (simp add: dec)
  show ?thesis
    using a(1) b(1) c(1) d(1) e(1) z g y call by auto
qed

lemma model_call_chain:
  assumes x: "tshape x = [n, H, W, c]" and HW: "0 < H" "0 < W" and nc: "0 < nc"
  shows "\<exists>f s a a2 b c d e z g y.
      XceptionBackbone_call rt (XceptionBackbone_of os) x = Inr (f, s) \<and>
      tshape s = [n, ((H + 1) div 2 + 1) div 2, ((W + 1) div 2 + 1) div 2, 256] \<and>
      ASPP_call rt (ASPP_init os) f = Inr a \<and>
      image_resize rt a (shape_1_3 s) = Inr a2 \<and>
      BasicBlock_call rt (skip_block (DeepLabV3Decoder_of nc)) s = Inr b \<and>
      Concatenate_call rt [a2, b] = Inr c \<and>
      SeparableConvBlock_call rt (sepconv1 (DeepLabV3Decoder_of nc)) c = Inr d \<and>
      SeparableConvBlock_call rt (sepconv2 (DeepLabV3Decoder_of nc)) d = Inr e \<and>
      apply_layer rt (conv (DeepLabV3Decoder_of nc)) e = Inr z \<and>
      tshape z = [n, ((H + 1) div 2 + 1) div 2, ((W + 1) div 2 + 1) div 2, nc] \<and>
      image_resize rt z (shape_1_3 x) = Inr g \<and>
      apply_layer rt (Activation ''sigmoid'') g = Inr y \<and>
      DeepLabV3Decoder_call rt (DeepLabV3Decoder_of nc) a s (shape_1_3 x) = Inr y \<and>
      DeepLabV3pXc_call rt \<lparr>backbone = XceptionBackbone_of os, aspp = ASPP_init os,
                             decoder = DeepLabV3Decoder_of nc\<rparr> x = Inr y \<and>
      tshape y = [n, H, W, nc] \<and>
      (\<forall>i. tdata y i = sigmoid (tdata g i))"
proof -
  obtain f s where f: "XceptionBackbone_call rt (XceptionBackbone_of os) x = Inr (f, s)"
    "tshape s = [n, ((H + 1) div 2 + 1) div 2, ((W + 1) div 2 + 1) div 2, 256]"
    "tshape f = [n, (if os = 8 then ((((H + 1) div 2) + 1) div 2 + 1) div 2
                     else (((((H + 1) div 2) + 1) div 2 + 1) div 2 + 1) div 2),
                    (if os = 8 then ((((W + 1) div 2) + 1) div 2 + 1) div 2
                     else (((((W + 1) div 2) + 1) div 2 + 1) div 2 + 1) div 2), 2048]"
    using XceptionBackbone_call_shape [OF x HW, of os rt]
    by (auto simp: XceptionBackbone_init_of bind_Inr)
  define hf where "hf = (if os = 8 then ((((H + 1) div 2) + 1) div 2 + 1) div 2
                     else (((((H + 1) div 2) + 1) div 2 + 1) div 2 + 1) div 2)"
  define wf where "wf = (if os = 8 then ((((W + 1) div 2) + 1) div 2 + 1) div 2
                     else (((((W + 1) div 2) + 1) div 2 + 1) div 2 + 1) div 2)"
  define hs where "hs = ((H + 1) div 2 + 1) div 2"
  define ws where "ws = ((W + 1) div 2 + 1) div 2"
  have pos: "0 < hf" "0 < wf" "0 < hs" "0 < ws"
    using HW by (simp_all add: hf_def wf_def hs_def ws_def)
  have fs: "tshape f = [n, hf, wf, 2048]" "tshape s = [n, hs, ws, 256]"
    using f(2,3) by (simp_all add: hf_def wf_def hs_def ws_def)
  obtain a where a: "ASPP_call rt (ASPP_init os) f = Inr a" "tshape a = [n, hf, wf, 256]"
    using ASPP_shapes [OF fs(1) pos(1,2), of rt os] by blast
  have ish: "shape_1_3 x = [H, W]" by (simp add: shape_1_3_def x)
  obtain a2 b c d e z g y where k:
    "image_resize rt a (shape_1_3 s) = Inr a2"
    "BasicBlock_call rt (skip_block (DeepLabV3Decoder_of nc)) s = Inr b"
    "Concatenate_call rt [a2, b] = Inr c"
    "SeparableConvBlock_call rt (sepconv1 (DeepLabV3Decoder_of nc)) c = Inr d"
    "SeparableConvBlock_call rt (sepconv2 (DeepLabV3Decoder_of nc)) d = Inr e"
    "apply_layer rt (conv (DeepLabV3Decoder_of nc)) e = Inr z"
    "tshape z = [n, hs, ws, nc]"
    "image_resize rt z [H, W] = Inr g"
    "apply_layer rt (Activation ''sigmoid'') g = Inr y"
    "DeepLabV3Decoder_call rt (DeepLabV3Decoder_of nc) a s [H, W] = Inr y"
    "tshape y = [n, H, W, nc]"
    "\<forall>i. tdata y i = sigmoid (tdata g i)"
    using Decoder_chain [OF a(2) pos(1,2) fs(2) pos(3,4) HW nc, of rt] by blast
  have call: "DeepLabV3pXc_call rt \<lparr>backbone = XceptionBackbone_of os, aspp = ASPP_init os,
                             decoder = DeepLabV3Decoder_of nc\<rparr> x = Inr y"
    by (simp add: DeepLabV3pXc_call_def bind_Inr ish f(1) a(1) k(10))
  have z: "tshape z = [n, ((H + 1) div 2 + 1) div 2, ((W + 1) div 2 + 1) div 2, nc]"
    using k(7) by (simp add: hs_def ws_def)
  show ?thesis
    using f(1,2) a(1) k(1-6) z k(8-10) [folded ish] call k(11,12) by blast
qed

lemma DeepLabV3pXc_init_body_of:
  "0 < nc \<Longrightarrow> DeepLabV3pXc_init_body os nc = Inr (model_of os nc)"
  by (simp add: DeepLabV3pXc_init_body_def XceptionBackbone_init_of DeepLabV3Decoder_init_of
      bind_Inr model_of_def)

lemma model_of_call_chain:
  assumes x: "tshape x = [n, H, W, c]" and HW: "0 < H" "0 < W" and nc: "0 < nc"
    and dv: "4 dvd H" "4 dvd W"
  shows "\<exists>f s a a2 b c d e z g y.
      XceptionBackbone_call rt (backbone (model_of os nc)) x = Inr (f, s) \<and>
      ASPP_call rt (aspp (model_of os nc)) f = Inr a \<and>
      image_resize rt a (shape_1_3 s) = Inr a2 \<and>
      BasicBlock_call rt (skip_block (decoder (model_of os nc))) s = Inr b \<and>
      Concatenate_call rt [a2, b] = Inr c \<and>
      SeparableConvBlock_call rt (sepconv1 (decoder (model_of os nc))) c = Inr d \<and>
      SeparableConvBlock_call rt (sepconv2 (decoder (model_of os nc))) d = Inr e \<and>
      apply_layer rt (conv (decoder (model_of os nc))) e = Inr z \<and>
      tshape z = [n, H div 4, W div 4, nc] \<and>
      image_resize rt z (shape_1_3 x) = Inr g \<and>
      apply_layer rt (Activation ''sigmoid'') g = Inr y \<and>
      DeepLabV3Decoder_call rt (decoder (model_of os nc)) a s (shape_1_3 x) = Inr y \<and>
      DeepLabV3pXc_call rt (model_of os nc) x = Inr y \<and>
      shape_1_3 x = [H, W] \<and>
      tshape y = [n, H, W, nc] \<and>
      (\<forall>i. tdata y i = sigmoid (tdata g i))"
proof -
  have ish: "shape_1_3 x = [H, W]" by (simp add: shape_1_3_def x)
  have m: "backbone (model_of os nc) = XceptionBackbone_of os"
    "aspp (model_of os nc) = ASPP_init os"
    "decoder (model_of os nc) = DeepLabV3Decoder_of nc"
    "model_of os nc = \<lparr>backbone = XceptionBackbone_of os, aspp = ASPP_init os,
                        decoder = DeepLabV3Decoder_of nc\<rparr>"
    by (simp_all add: model_of_def)
  obtain f s a a2 b c d e z g y where k:
      "XceptionBackbone_call rt (XceptionBackbone_of os) x = Inr (f, s)"
      "ASPP_call rt (ASPP_init os) f = Inr a"
      "image_resize rt a (shape_1_3 s) = Inr a2"
      "BasicBlock_call rt (skip_block (DeepLabV3Decoder_of nc)) s = Inr b"
      "Concatenate_call rt [a2, b] = Inr c"
      "SeparableConvBlock_call rt (sepconv1 (DeepLabV3Decoder_of nc)) c = Inr d"
      "SeparableConvBlock_call rt (sepconv2 (DeepLabV3Decoder_of nc)) d = Inr e"
      "apply_layer rt (conv (DeepLabV3Decoder_of nc)) e = Inr z"
      "tshape z = [n, ((H + 1) div 2 + 1) div 2, ((W + 1) div 2 + 1) div 2, nc]"
      "image_resize rt z (shape_1_3 x) = Inr g"
      "apply_layer rt (Activation ''sigmoid'') g = Inr y"
      "DeepLabV3Decoder_call rt (DeepLabV3Decoder_of nc) a s (shape_1_3 x) = Inr y"
      "DeepLabV3pXc_call rt \<lparr>backbone = XceptionBackbone_of os, aspp = ASPP_init os,
                             decoder = DeepLabV3Decoder_of nc\<rparr> x = Inr y"
      "tshape y = [n, H, W, nc]"
      "\<forall>i. tdata y i = sigmoid (tdata g i)"
    using model_call_chain [OF x HW nc, of rt os] by blast
  have z: "tshape z = [n, H div 4, W div 4, nc]"
    using k(9) unfolding quarter [OF dv(1)] quarter [OF dv(2)] .
  show ?thesis
    unfolding m(1,2,3)
    using k(1-8) z k(10-12) k(13) [folded m(4)] ish k(14,15) by blast
qed

text \<open>
  Claim C1 (shape and range of the output), as the program has it. Let the constructor
  body have built the model for output stride 8 or 16 and at least one class, and let
  the input have shape \<open>(batch, H, W, 3)\<close> with \<open>H\<close> and \<open>W\<close> positive and divisible
  by 32. Under any runtime the body of the forward pass returns: the backbone gives the
  feature map and the skip map, the pooling module transforms the feature map, and the
  decoder resizes it to the skip map's height and width, concatenates it with the
  projected skip map, refines it with its two separable blocks, and its class-score
  convolution yields \<open>n_classes\<close> channels at a quarter of the input's height and
  width; these scores are resized to the height and width read from
  the input and passed through the sigmoid layer, which is the result, of shape
  \<open>(batch, H, W, n_classes)\<close>. Every value of the result is the sigmoid of the resized
  score at the same index: between 0 and 1 when that score is not NaN, and NaN when it
  is.
\<close>

theorem forward_pass_shape_and_range:
  "tshape x = [n, H, W, 3] \<Longrightarrow> 0 < H \<Longrightarrow> 0 < W \<Longrightarrow> 32 dvd H \<Longrightarrow> 32 dvd W \<Longrightarrow>
   os = 8 \<or> os = 16 \<Longrightarrow> 1 \<le> nc \<Longrightarrow> DeepLabV3pXc_init_body os nc = Inr m \<Longrightarrow>
   \<exists>f s a a2 b c d e z g y.
      XceptionBackbone_call rt (backbone m) x = Inr (f, s) \<and>
      ASPP_call rt (aspp m) f = Inr a \<and>
      image_resize rt a (shape_1_3 s) = Inr a2 \<and>
      BasicBlock_call rt (skip_block (decoder m)) s = Inr b \<and>
      Concatenate_call rt [a2, b] = Inr c \<and>
      SeparableConvBlock_call rt (sepconv1 (decoder m)) c = Inr d \<and>
      SeparableConvBlock_call rt (sepconv2 (decoder m)) d = Inr e \<and>
      apply_layer rt (conv (decoder m)) e = Inr z \<and>
      tshape z = [n, H div 4, W div 4, nc] \<and>
      image_resize rt z (shape_1_3 x) = Inr g \<and>
      apply_layer rt (Activation ''sigmoid'') g = Inr y \<and>
      DeepLabV3Decoder_call rt (decoder m) a s (shape_1_3 x) = Inr y \<and>
      DeepLabV3pXc_call rt m x = Inr y \<and>
      shape_1_3 x = [H, W] \<and>
      tshape y = [n, H, W, nc] \<and>
      (\<forall>i. tdata y i = sigmoid (tdata g i)) \<and>
      (\<forall>i. tdata g i \<noteq> NaN \<longrightarrow> in_unit (tdata y i)) \<and>
      (\<forall>i. tdata g i = NaN \<longrightarrow> tdata y i = NaN)"
proof -
  assume x: "tshape x = [n, H, W, 3]" and H: "0 < H" and W: "0 < W"
    and dH: "32 dvd H" and dW: "32 dvd W" and nc: "1 \<le> nc"
    and m: "DeepLabV3pXc_init_body os nc = Inr m"
  from nc have nc': "0 < nc" by simp
  from dH have qH: "4 dvd H" by presburger
  from dW have qW: "4 dvd W" by presburger
  have mo: "m = model_of os nc"
    using m DeepLabV3pXc_init_body_of [OF nc', of os] by simp
  obtain f s a a2 b c d e z g y where k:
      "XceptionBackbone_call rt (backbone m) x = Inr (f, s)"
      "ASPP_call rt (aspp m) f = Inr a"
      "image_resize rt a (shape_1_3 s) = Inr a2"
      "BasicBlock_call rt (skip_block (decoder m)) s = Inr b"
      "Concatenate_call rt [a2, b] = Inr c"
      "SeparableConvBlock_call rt (sepconv1 (decoder m)) c = Inr d"
      "SeparableConvBlock_call rt (sepconv2 (decoder m)) d = Inr e"
      "apply_layer rt (conv (decoder m)) e = Inr z"
      "tshape z = [n, H div 4, W div 4, nc]"
      "image_resize rt z (shape_1_3 x) = Inr g"
      "apply_layer rt (Activation ''sigmoid'') g = Inr y"
      "DeepLabV3Decoder_call rt (decoder m) a s (shape_1_3 x) = Inr y"
      "DeepLabV3pXc_call rt m x = Inr y"
      "shape_1_3 x = [H, W]"
      "tshape y = [n, H, W, nc]"
      "\<forall>i. tdata y i = sigmoid (tdata g i)"
    using model_of_call_chain [OF x H W nc' qH qW, of rt os] unfolding mo by blast
  have r1: "\<forall>i. tdata g i \<noteq> NaN \<longrightarrow> in_unit (tdata y i)"
    using k(16) by (simp add: sigmoid_unit)
  have r2: "\<forall>i. tdata g i = NaN \<longrightarrow> tdata y i = NaN"
    using k(16) by simp
  show ?thesis
    using k r1 r2 by blast
qed

theorem forward_pass_shape_and_range_witness:
  "tshape (zeros [1, 32, 32, 3]) = [1, 32, 32, 3] \<and> (0::nat) < 32 \<and> (32::nat) dvd 32 \<and>
   ((8::int) = 8 \<or> (8::int) = 16) \<and> (1::nat) \<le> 1 \<and>
   DeepLabV3pXc_init_body 8 1 = Inr (model_of 8 1) \<and>
   (\<exists>z g y.
      tshape z = [1, 32 div 4, 32 div 4, 1] \<and>
      image_resize id_runtime z (shape_1_3 (zeros [1, 32, 32, 3])) = Inr g \<and>
      apply_layer id_runtime (Activation ''sigmoid'') g = Inr y \<and>
      DeepLabV3pXc_call id_runtime (model_of 8 1) (zeros [1, 32, 32, 3]) = Inr y \<and>
      tshape y = [1, 32, 32, 1] \<and>
      (\<forall>i. tdata y i = sigmoid (tdata g i)))"
proof -
  have a: "tshape (zeros [1, 32, 32, 3]) = [1, 32, 32, 3]" by (simp add: zeros_def)
  have b: "(0::nat) < 32" by simp
  have c: "(32::nat) dvd 32" by simp
  have d: "(8::int) = 8 \<or> (8::int) = 16" by simp
  have e: "(1::nat) \<le> 1" by simp
  have f: "DeepLabV3pXc_init_body 8 1 = Inr (model_of 8 1)"
    by (simp add: DeepLabV3pXc_init_body_of)
  from forward_pass_shape_and_range [OF a b b c c d e f, of id_runtime] a b c d e f
  show ?thesis by blast
qed

text \<open>
  Under a runtime whose layers return NaN, the model built for output stride 8 and one
  class returns, on a 32 by 32 image, a tensor whose value at the first index is NaN,
  which is not between 0 and 1.
\<close>

theorem forward_pass_nan:
  "DeepLabV3pXc_init_body 8 1 = Inr (model_of 8 1) \<and>
   value_at (DeepLabV3pXc_call nan_runtime (model_of 8 1) (zeros [1, 32, 32, 3])) [0, 0, 0, 0] =
     Inr NaN \<and>
   \<not> in_unit NaN"
proof -
  have a: "tshape (zeros [1, 32, 32, 3]) = [1, 32, 32, 3]" by (simp add: zeros_def)
  have b: "(0::nat) < 32" by simp
  have c: "(4::nat) dvd 32" by simp
  have n1: "0 < (1::nat)" by simp
  obtain e z g y where d:
      "apply_layer nan_runtime (conv (decoder (model_of 8 1))) e = Inr z"
      "image_resize nan_runtime z (shape_1_3 (zeros [1, 32, 32, 3])) = Inr g"
      "DeepLabV3pXc_call nan_runtime (model_of 8 1) (zeros [1, 32, 32, 3]) = Inr y"
      "\<forall>i. tdata y i = sigmoid (tdata g i)"
    using model_of_call_chain [OF a b b n1 c c, of nan_runtime 8] by blast
  have z: "tdata z = (\<lambda>i. NaN)"
    using apply_layer_data [OF d(1)]
    by (simp add: model_of_def DeepLabV3Decoder_of_def layer_data_def nan_runtime_def)
  have g: "tdata g = (\<lambda>i. NaN)"
    using image_resize_data [OF d(2)] z by (simp add: nan_runtime_def)
  have y: "tdata y [0, 0, 0, 0] = NaN"
    using d(4) g by simp
  have f: "DeepLabV3pXc_init_body 8 1 = Inr (model_of 8 1)"
    by (simp add: DeepLabV3pXc_init_body_of)
  have v: "value_at (DeepLabV3pXc_call nan_runtime (model_of 8 1) (zeros [1, 32, 32, 3]))
             [0, 0, 0, 0] = Inr NaN"
    unfolding value_at_def d(3) using y by simp
  have u: "\<not> in_unit NaN" by simp
  show ?thesis
    using f v u by (intro conjI)
qed

section \<open>The additive skip on mismatched shapes\<close>

lemma Add_call_mismatch:
  assumes "tshape a = [n, h1, w1, c1]" "tshape b = [n, h2, w2, c2]"
  shows "(bind (Add_call rt a b) (\<lambda>out. Inr (g out)) = Inl ValueError) =
         ((h1 \<noteq> h2 \<and> h1 \<noteq> 1 \<and> h2 \<noteq> 1) \<or> (w1 \<noteq> w2 \<and> w1 \<noteq> 1 \<and> w2 \<noteq> 1) \<or>
          (c1 \<noteq> c2 \<and> c1 \<noteq> 1 \<and> c2 \<noteq> 1))"
  using assms by (auto simp: Add_call_def bind_def split: sum.splits)

lemma additive_stride_1:
  assumes "tshape x = [n, h, w, c]" "0 < h" "0 < w" "0 < f0" "0 < f1" "0 < f2" "0 < d"
  shows "(bind (XceptionBlock_init [f0, f1, f2] (Some ''sum'') 1 d act rs)
            (\<lambda>b. XceptionBlock_call rt b x) = Inl ValueError) =
         (c \<noteq> f2 \<and> c \<noteq> 1 \<and> f2 \<noteq> 1)"
proof -
  obtain r1 where r1: "SeparableConvBlock_call rt (SeparableConvBlock_init f0 3 1 d act) x = Inr r1"
    "tshape r1 = [n, h, w, f0]"
    using SeparableConvBlock_shape_1 [OF assms(1,2,3,4,7)] by blast
  obtain r2 where r2: "SeparableConvBlock_call rt (SeparableConvBlock_init f1 3 1 d act) r1 = Inr r2"
    "tshape r2 = [n, h, w, f1]"
    using SeparableConvBlock_shape_1 [OF r1(2) assms(2,3,5,7)] by blast
  obtain r3 where r3: "SeparableConvBlock_call rt (SeparableConvBlock_init f2 3 1 d act) r2 = Inr r3"
    "tshape r3 = [n, h, w, f2]"
    using SeparableConvBlock_shape_1 [OF r2(2) assms(2,3,6,7)] by blast
  have "bind (XceptionBlock_init [f0, f1, f2] (Some ''sum'') 1 d act rs)
            (\<lambda>b. XceptionBlock_call rt b x) =
        bind (Add_call rt r3 x) (\<lambda>out. Inr (if rs then Two out r2 else One out))"
    using assms by (simp add: XceptionBlock_init_three XceptionBlock_call_of r1 r2 r3 bind_Inr
        del: One_nat_def)
  then show ?thesis
    using Add_call_mismatch [OF r3(2) assms(1), of rt "\<lambda>out. if rs then Two out r2 else One out"]
    by auto
qed

lemma additive_stride_2:
  assumes "tshape x = [n, h, w, c]" "0 < h" "0 < w" "0 < f0" "0 < f1" "0 < f2"
  shows "(bind (XceptionBlock_init [f0, f1, f2] (Some ''sum'') 2 1 act rs)
            (\<lambda>b. XceptionBlock_call rt b x) = Inl ValueError) =
         (3 \<le> h \<or> 3 \<le> w \<or> (c \<noteq> f2 \<and> c \<noteq> 1 \<and> f2 \<noteq> 1))"
proof -
  have d: "0 < (1::nat)" by simp
  obtain r1 where r1: "SeparableConvBlock_call rt (SeparableConvBlock_init f0 3 1 1 act) x = Inr r1"
    "tshape r1 = [n, h, w, f0]"
    using SeparableConvBlock_shape_1 [OF assms(1,2,3,4) d] by blast
  obtain r2 where r2: "SeparableConvBlock_call rt (SeparableConvBlock_init f1 3 1 1 act) r1 = Inr r2"
    "tshape r2 = [n, h, w, f1]"
    using SeparableConvBlock_shape_1 [OF r1(2) assms(2,3,5) d] by blast
  obtain r3 where r3: "SeparableConvBlock_call rt (SeparableConvBlock_init f2 3 2 1 act) r2 = Inr r3"
    "tshape r3 = [n, (h + 1) div 2, (w + 1) div 2, f2]"
    using SeparableConvBlock_shape_2 [OF r2(2) assms(2,3,6)] by blast
  have "bind (XceptionBlock_init [f0, f1, f2] (Some ''sum'') 2 1 act rs)
            (\<lambda>b. XceptionBlock_call rt b x) =
        bind (Add_call rt r3 x) (\<lambda>out. Inr (if rs then Two out r2 else One out))"
    using assms by (simp add: XceptionBlock_init_three XceptionBlock_call_of r1 r2 r3 bind_Inr
        del: One_nat_def)
  moreover have "((h + 1) div 2 \<noteq> h \<and> (h + 1) div 2 \<noteq> 1 \<and> h \<noteq> 1) = (3 \<le> h)"
    using assms(2) by presburger
  moreover have "((w + 1) div 2 \<noteq> w \<and> (w + 1) div 2 \<noteq> 1 \<and> w \<noteq> 1) = (3 \<le> w)"
    using assms(3) by presburger
  ultimately show ?thesis
    using Add_call_mismatch [OF r3(2) assms(1), of rt "\<lambda>out. if rs then Two out r2 else One out"]
    by (auto simp: eq_commute [of f2 c])
qed

lemma elemwise_channel_1: "elemwise_op_output_shape [h, w, f] [h, w, 1] = Inr [h, w, f]"
  by (cases "f = 1") (simp_all add: bind_def)

lemma additive_broadcast:
  assumes "tshape x = [n, h, w, 1]" "0 < h" "0 < w" "0 < f0" "0 < f1" "0 < f2" "0 < d"
  shows "result_shapes (bind (XceptionBlock_init [f0, f1, f2] (Some ''sum'') 1 d act False)
            (\<lambda>b. XceptionBlock_call rt b x)) = Inr [[n, h, w, f2]]"
proof -
  obtain r1 where r1: "SeparableConvBlock_call rt (SeparableConvBlock_init f0 3 1 d act) x = Inr r1"
    "tshape r1 = [n, h, w, f0]"
    using SeparableConvBlock_shape_1 [OF assms(1,2,3,4,7)] by blast
  obtain r2 where r2: "SeparableConvBlock_call rt (SeparableConvBlock_init f1 3 1 d act) r1 = Inr r2"
    "tshape r2 = [n, h, w, f1]"
    using SeparableConvBlock_shape_1 [OF r1(2) assms(2,3,5,7)] by blast
  obtain r3 where r3: "SeparableConvBlock_call rt (SeparableConvBlock_init f2 3 1 d act) r2 = Inr r3"
    "tshape r3 = [n, h, w, f2]"
    using SeparableConvBlock_shape_1 [OF r2(2) assms(2,3,6,7)] by blast
  have "\<exists>y. Add_call rt r3 x = Inr y \<and> tshape y = [n, h, w, f2]"
    by (simp add: Add_call_def r3(2) assms(1) elemwise_channel_1 bind_Inr)
  then obtain y where y: "Add_call rt r3 x = Inr y" "tshape y = [n, h, w, f2]"
    by blast
  show ?thesis
    using assms by (simp add: XceptionBlock_init_three XceptionBlock_call_of r1 r2 r3 y bind_Inr
        result_shapes_def del: One_nat_def)
qed

text \<open>
  Claim C10 (shape mismatch at the additive skip), as the program has it. The merge
  layer broadcasts a dimension of size 1, so the addition fails exactly when the input
  and the main path's output differ in a dimension in which neither has size 1. For a
  block with skip type \<^verbatim>\<open>"sum"\<close> on an input of positive height and width: at stride 1
  the call fails with \<open>ValueError\<close> exactly when the input's channel count differs from
  the third filter count and neither is 1; at stride 2 (rate 1) it fails exactly when
  the height or the width is at least 3, or the channels disagree in that way. The error
  is the result of the call. In every other case of a disagreement the call does not
  fail at the addition.
\<close>

theorem additive_skip_failure:
  "tshape x = [n, h, w, c] \<Longrightarrow> 0 < h \<Longrightarrow> 0 < w \<Longrightarrow> 0 < f0 \<Longrightarrow> 0 < f1 \<Longrightarrow> 0 < f2 \<Longrightarrow> 0 < d \<Longrightarrow>
   ((bind (XceptionBlock_init [f0, f1, f2] (Some ''sum'') 1 d act rs)
        (\<lambda>b. XceptionBlock_call rt b x) = Inl ValueError) =
      (c \<noteq> f2 \<and> c \<noteq> 1 \<and> f2 \<noteq> 1)) \<and>
   ((bind (XceptionBlock_init [f0, f1, f2] (Some ''sum'') 2 1 act rs)
        (\<lambda>b. XceptionBlock_call rt b x) = Inl ValueError) =
      (3 \<le> h \<or> 3 \<le> w \<or> (c \<noteq> f2 \<and> c \<noteq> 1 \<and> f2 \<noteq> 1)))"
proof -
  assume a: "tshape x = [n, h, w, c]" "0 < h" "0 < w" "0 < f0" "0 < f1" "0 < f2" and d: "0 < d"
  show ?thesis
    using additive_stride_1 [OF a d, of act rs rt] additive_stride_2 [OF a, of act rs rt]
    by blast
qed

theorem additive_skip_failure_witness:
  "tshape (zeros [1, 8, 8, 3]) = [1, 8, 8, 3] \<and> (0::nat) < 8 \<and> (0::nat) < 4 \<and> (0::nat) < 1 \<and>
   bind (XceptionBlock_init [4, 4, 4] (Some ''sum'') 1 1 False False)
        (\<lambda>b. XceptionBlock_call id_runtime b (zeros [1, 8, 8, 3])) = Inl ValueError \<and>
   bind (XceptionBlock_init [4, 4, 4] (Some ''sum'') 2 1 False False)
        (\<lambda>b. XceptionBlock_call id_runtime b (zeros [1, 8, 8, 3])) = Inl ValueError"
proof -
  have a: "tshape (zeros [1, 8, 8, 3]) = [1, 8, 8, 3]" by (simp add: zeros_def)
  have b: "(0::nat) < 8" by simp
  have c: "(0::nat) < 4" by simp
  have d: "(0::nat) < 1" by simp
  from additive_skip_failure [OF a b b c c c d, of False False id_runtime] a b c d
  show ?thesis by simp
qed

text \<open>
  A one-channel input to the additive block of the middle flow: the channel counts 1 and
  728 disagree, and the call returns a tensor of 728 channels.
\<close>

theorem additive_skip_broadcasts:
  "result_shapes (bind (XceptionBlock_init [728, 728, 728] (Some ''sum'') 1 1 False False)
      (\<lambda>b. XceptionBlock_call id_runtime b (zeros [1, 8, 8, 1]))) = Inr [[1, 8, 8, 728]]"
proof -
  have a: "tshape (zeros [1, 8, 8, 1]) = [1, 8, 8, 1]" by (simp add: zeros_def)
  show ?thesis
    using additive_broadcast [OF a, of 728 728 728 1 False id_runtime] by simp
qed

end
